theory Spec2Isabelle
  imports Main "HOL-Library.Sublist"
begin

section \<open>Keycloak admin dashboard: the service layer and the flows built on it\<close>

text \<open>
  The development embeds \<^verbatim>\<open>KeycloakAdminService\<close> (the class around \<^verbatim>\<open>fetch\<close>),
  the three flows of \<^verbatim>\<open>UserManager\<close> that talk to it (\<^verbatim>\<open>loadUsers\<close>,
  \<^verbatim>\<open>performCreate\<close>, \<^verbatim>\<open>performUpdate\<close>) and the loader and pager of
  \<^verbatim>\<open>AuditLog\<close>.

  An \<^verbatim>\<open>async\<close> function is a state transformer that returns either the value it
  resolves with (\<open>Inr\<close>) or the error it rejects with (\<open>Inl\<close>). The state holds what the
  code mutates or emits: the token of the \<^verbatim>\<open>keycloak\<close> object, the React state of the two
  components, what goes to \<^verbatim>\<open>console.warn\<close> and \<^verbatim>\<open>console.error\<close>, the alerts, and the sequence of calls made to the
  outside (\<^verbatim>\<open>updateToken\<close> and \<^verbatim>\<open>fetch\<close>). The outside is a parameter: what
  \<^verbatim>\<open>updateToken\<close> and \<^verbatim>\<open>fetch\<close> answer may depend on every call made before.

  Promises that the source awaits jointly (\<^verbatim>\<open>Promise.all\<close>) are run one after the other,
  in array order. The source starts all of them before any settles, so that in a run of
  \<^verbatim>\<open>loadUsers\<close> the calls to \<^verbatim>\<open>updateToken\<close> come before the calls to \<^verbatim>\<open>fetch\<close>,
  and the error of a \<^verbatim>\<open>Promise.all\<close> is the one that settles first; what is proved of
  \<^verbatim>\<open>loadUsers\<close> below is about the users and warnings it stores, for the order run here.
\<close>

subsection \<open>Representations\<close>

text \<open>
  The JSON of a response is taken decoded: a user, a role and an audit event are records of
  the fields the code reads. \<^verbatim>\<open>{ ...user, realmRoles }\<close> is the user record extended by
  one field.
\<close>

record user =
  uid :: string
  username :: string
  email :: "string option"
  enabled :: bool

record enriched_user = user +
  realmRoles :: "string list"

record role =
  rid :: string
  name :: string

record audit_event =
  time :: nat
  evType :: string
  userId :: "string option"
  ipAddress :: string
  clientId :: string

text \<open>The state \<^verbatim>\<open>formData\<close> of the modal; \<^verbatim>\<open>selectedRoles\<close> lists its keys in the
  order \<^verbatim>\<open>Object.keys\<close> enumerates them.\<close>

record formData =
  fd_username :: string
  fd_email :: string
  fd_password :: string
  selectedRoles :: "(string \<times> bool) list"

text \<open>What is passed through \<^verbatim>\<open>JSON.stringify\<close> as a request body, kept as the value.\<close>

datatype body =
    NewUserData string string bool bool
  | PasswordPayload string string bool
  | RolesArray "role list"

text \<open>The second argument of \<^verbatim>\<open>_request\<close> and of \<^verbatim>\<open>fetch\<close>. Headers are an
  object: keys in insertion order, a later assignment to a key replaces its value.\<close>

record options = "method" :: "string option"
  headers :: "(string \<times> string) list"
  body :: "body option"

definition no_options :: options where
  "no_options = \<lparr>method = None, headers = [], body = None\<rparr>"

fun assign :: "(string \<times> string) list \<Rightarrow> string \<times> string \<Rightarrow> (string \<times> string) list" where
  "assign [] kv = [kv]"
| "assign ((k', v') # rest) (k, v) =
     (if k' = k then (k, v) # rest else (k', v') # assign rest (k, v))"

definition spread :: "(string \<times> string) list \<Rightarrow> (string \<times> string) list \<Rightarrow> (string \<times> string) list" where
  "spread obj extra = foldl assign obj extra"

text \<open>The \<^verbatim>\<open>Response\<close> of \<^verbatim>\<open>fetch\<close>: \<open>json\<close> is \<open>None\<close> when
  \<^verbatim>\<open>response.json()\<close> rejects, that is when the body is not JSON.\<close>

record 'a response =
  status :: nat
  content_length :: "string option"
  text_body :: string
  json :: "'a option"

definition ok :: "('a, 'b) response_scheme \<Rightarrow> bool" where
  "ok r = (200 \<le> status r \<and> status r \<le> 299)"

subsection \<open>Errors\<close>

text \<open>The reason of a rejection that comes from outside: \<^verbatim>\<open>undefined\<close> or \<^verbatim>\<open>null\<close>,
  of which no property can be read, or a value with the \<^verbatim>\<open>message\<close> it has, if any.\<close>

datatype reason = Nullish | Reason "string option"

text \<open>One constructor for each \<^verbatim>\<open>throw\<close> of the source, one for a rejection that
  comes from outside and one for the \<^verbatim>\<open>TypeError\<close> of a method call on \<^verbatim>\<open>null\<close>.\<close>

datatype error =
    NoActiveToken
  | AccessDenied
  | Conflict
  | ApiError nat string
  | CreatedNotFound
  | TypeError string
  | Rejection reason

definition digit :: "nat \<Rightarrow> char" where
  "digit d = ''0123456789'' ! d"

function show_nat :: "nat \<Rightarrow> string" where
  "show_nat n = (if n < 10 then [digit n] else show_nat (n div 10) @ [digit (n mod 10)])"
  by pat_completeness auto
termination
  by (relation "measure (\<lambda>n. n)") auto

declare show_nat.simps [simp del]

text \<open>\<^verbatim>\<open>err.message\<close>, where it can be read (\<open>readable\<close>).\<close>

fun readable :: "error \<Rightarrow> bool" where
  "readable (Rejection Nullish) = False"
| "readable _ = True"

fun message :: "error \<Rightarrow> string option" where
  "message NoActiveToken = Some ''No active token''"
| "message AccessDenied =
     Some ''Access Denied: You likely need 'realm-admin' or 'manage-users' role.''"
| "message Conflict = Some ''Conflict: User or resource already exists.''"
| "message (ApiError st txt) = Some (''API Error '' @ show_nat st @ '': '' @ txt)"
| "message CreatedNotFound = Some ''User created but not found.''"
| "message (TypeError m) = Some m"
| "message (Rejection (Reason m)) = m"
| "message (Rejection Nullish) = None"

subsection \<open>The state and the outside\<close>

datatype event =
    UpdateToken nat
  | Fetch string options

datatype 'a settled = Rejects reason | Resolves 'a

datatype notice = AccessDeniedNotice | Text "string option"

record world =
  token :: "string option"
  trace :: "event list"
  warnings :: "(string \<times> error) list"
  logged :: "error list"
  alerts :: "string list"
  users :: "enriched_user list"
  totalUsers :: nat
  events :: "audit_event list"
  al_error :: "notice option"
  al_loading :: bool

text \<open>
  \<open>updateToken\<close> is the method of keycloak-js: from the calls so far, the margin and the
  current token it gives how its promise settles and the token the object holds afterwards.
  \<^verbatim>\<open>fetch\<close> is one function in the source; here it is split by the type the JSON of
  the endpoint decodes to. \<open>encodeParam\<close> is the percent-encoding of
  \<^verbatim>\<open>URLSearchParams\<close>.
\<close>

record env =
  updateToken :: "event list \<Rightarrow> nat \<Rightarrow> string option \<Rightarrow> unit settled \<times> string option"
  fetchUsers :: "event list \<Rightarrow> string \<Rightarrow> options \<Rightarrow> user list response settled"
  fetchCount :: "event list \<Rightarrow> string \<Rightarrow> options \<Rightarrow> nat response settled"
  fetchRoles :: "event list \<Rightarrow> string \<Rightarrow> options \<Rightarrow> role list response settled"
  fetchEvents :: "event list \<Rightarrow> string \<Rightarrow> options \<Rightarrow> audit_event list response settled"
  fetchAck :: "event list \<Rightarrow> string \<Rightarrow> options \<Rightarrow> unit response settled"
  encodeParam :: "string \<Rightarrow> string"

type_synonym 'a async = "world \<Rightarrow> (error + 'a) \<times> world"

definition await :: "'a async \<Rightarrow> ('a \<Rightarrow> 'b async) \<Rightarrow> 'b async" where
  "await p k w = (case p w of (Inl e, w') \<Rightarrow> (Inl e, w') | (Inr x, w') \<Rightarrow> k x w')"

definition resolve :: "'a \<Rightarrow> 'a async" where
  "resolve x w = (Inr x, w)"

definition throw :: "error \<Rightarrow> 'a async" where
  "throw e w = (Inl e, w)"

definition alert :: "string \<Rightarrow> unit async" where
  "alert msg w = (Inr (), w\<lparr>alerts := alerts w @ [msg]\<rparr>)"

subsection \<open>KeycloakAdminService\<close>

record service =
  baseUrl :: string

definition strip_trailing_slash :: "string \<Rightarrow> string" where
  "strip_trailing_slash s = (if s \<noteq> [] \<and> last s = CHR ''/'' then butlast s else s)"

definition new_service :: "string \<Rightarrow> string \<Rightarrow> service" where
  "new_service authServerUrl realm =
     \<lparr>baseUrl = strip_trailing_slash authServerUrl @ ''/admin/realms/'' @ realm\<rparr>"

definition truthy :: "string option \<Rightarrow> bool" where
  "truthy t = (case t of None \<Rightarrow> False | Some s \<Rightarrow> s \<noteq> [])"

definition interpolate :: "string option \<Rightarrow> string" where
  "interpolate t = (case t of None \<Rightarrow> ''undefined'' | Some s \<Rightarrow> s)"

text \<open>
  \<^verbatim>\<open>_request\<close> is \<open>request\<close> here, in two parts. \<open>send\<close> is its first half, up to and including
  \<^verbatim>\<open>await fetch(url, config)\<close>: the token check, \<^verbatim>\<open>await this.keycloak.updateToken(30)\<close>,
  the headers (the token is read after the refresh), the call. \<open>receive\<close> is its second
  half: what it makes of the response.
\<close>

definition send ::
  "env \<Rightarrow> (env \<Rightarrow> event list \<Rightarrow> string \<Rightarrow> options \<Rightarrow> 'a response settled) \<Rightarrow>
   service \<Rightarrow> string \<Rightarrow> options \<Rightarrow> 'a response async" where
  "send ev fetch svc endpoint opts w =
     (if \<not> truthy (token w) then (Inl NoActiveToken, w)
      else
        case updateToken ev (trace w) 30 (token w) of
          (Rejects reason, tok) \<Rightarrow>
            (Inl (Rejection reason), w\<lparr>token := tok, trace := trace w @ [UpdateToken 30]\<rparr>)
        | (Resolves _, tok) \<Rightarrow>
            let w1 = w\<lparr>token := tok, trace := trace w @ [UpdateToken 30]\<rparr>;
                url = baseUrl svc @ endpoint;
                hdrs = spread [(''Authorization'', ''Bearer '' @ interpolate (token w1)),
                               (''Content-Type'', ''application/json'')] (headers opts);
                config = opts\<lparr>headers := hdrs\<rparr>;
                w2 = w1\<lparr>trace := trace w1 @ [Fetch url config]\<rparr>
            in case fetch ev (trace w1) url config of
                 Rejects reason \<Rightarrow> (Inl (Rejection reason), w2)
               | Resolves response \<Rightarrow> (Inr response, w2))"

definition receive :: "'a response \<Rightarrow> error + 'a option" where
  "receive response =
     (if \<not> ok response then
        (if status response = 403 then Inl AccessDenied
         else if status response = 409 then Inl Conflict
         else Inl (ApiError (status response) (text_body response)))
      else if content_length response = Some ''0'' \<or> status response = 204 then Inr None
      else (case json response of
              Some v \<Rightarrow> Inr (Some v)
            | None \<Rightarrow> Inr None))"

definition request ::
  "env \<Rightarrow> (env \<Rightarrow> event list \<Rightarrow> string \<Rightarrow> options \<Rightarrow> 'a response settled) \<Rightarrow>
   service \<Rightarrow> string \<Rightarrow> options \<Rightarrow> 'a option async" where
  "request ev fetch svc endpoint opts w =
     (case send ev fetch svc endpoint opts w of
        (Inl e, w') \<Rightarrow> (Inl e, w')
      | (Inr response, w') \<Rightarrow> (receive response, w'))"

text \<open>
  The methods of the service. In \<^verbatim>\<open>getUsersCount\<close> the count is a number, of which
  \<^verbatim>\<open>parseInt\<close> is the number itself; \<^verbatim>\<open>null\<close> and \<^verbatim>\<open>0\<close> are falsy. In
  \<^verbatim>\<open>getUserRealmRoles\<close> an array, empty or not, is truthy, so that \<^verbatim>\<open>roles || []\<close>
  replaces \<^verbatim>\<open>null\<close> only.
\<close>

definition getUsers :: "env \<Rightarrow> service \<Rightarrow> nat \<Rightarrow> nat \<Rightarrow> user list option async" where
  "getUsers ev svc first max_n =
     request ev fetchUsers svc
       (''/users?first='' @ show_nat first @ ''&max='' @ show_nat max_n) no_options"

definition getUsersCount :: "env \<Rightarrow> service \<Rightarrow> nat async" where
  "getUsersCount ev svc =
     await (request ev fetchCount svc ''/users/count'' no_options) (\<lambda>count.
       resolve (case count of None \<Rightarrow> 0 | Some c \<Rightarrow> if c \<noteq> 0 then c else 0))"

definition getEvents :: "env \<Rightarrow> service \<Rightarrow> nat \<Rightarrow> nat \<Rightarrow> string list \<Rightarrow> audit_event list option async" where
  "getEvents ev svc first max_n types =
     request ev fetchEvents svc
       (''/events?'' @ ''first='' @ show_nat first @ ''&max='' @ show_nat max_n
          @ concat (map (\<lambda>t. ''&type='' @ encodeParam ev t) types))
       no_options"

definition createUser :: "env \<Rightarrow> service \<Rightarrow> body \<Rightarrow> unit option async" where
  "createUser ev svc userData =
     request ev fetchAck svc ''/users''
       \<lparr>method = Some ''POST'', headers = [], body = Some userData\<rparr>"

definition resetPassword :: "env \<Rightarrow> service \<Rightarrow> string \<Rightarrow> string \<Rightarrow> unit option async" where
  "resetPassword ev svc userId' newPassword =
     request ev fetchAck svc (''/users/'' @ userId' @ ''/reset-password'')
       \<lparr>method = Some ''PUT'', headers = [],
        body = Some (PasswordPayload ''password'' newPassword False)\<rparr>"

definition getUserRealmRoles :: "env \<Rightarrow> service \<Rightarrow> string \<Rightarrow> role list async" where
  "getUserRealmRoles ev svc userId' =
     await (request ev fetchRoles svc (''/users/'' @ userId' @ ''/role-mappings/realm'') no_options)
       (\<lambda>roles. resolve (case roles of None \<Rightarrow> [] | Some rs \<Rightarrow> rs))"

definition addRealmRoleMappings :: "env \<Rightarrow> service \<Rightarrow> string \<Rightarrow> role list \<Rightarrow> unit option async" where
  "addRealmRoleMappings ev svc userId' rolesArray =
     request ev fetchAck svc (''/users/'' @ userId' @ ''/role-mappings/realm'')
       \<lparr>method = Some ''POST'', headers = [], body = Some (RolesArray rolesArray)\<rparr>"

definition removeRealmRoleMappings :: "env \<Rightarrow> service \<Rightarrow> string \<Rightarrow> role list \<Rightarrow> unit option async" where
  "removeRealmRoleMappings ev svc userId' rolesArray =
     request ev fetchAck svc (''/users/'' @ userId' @ ''/role-mappings/realm'')
       \<lparr>method = Some ''DELETE'', headers = [], body = Some (RolesArray rolesArray)\<rparr>"

subsection \<open>UserManager\<close>

text \<open>The \<^verbatim>\<open>keycloak\<close> object, apart from its token, which changes and lives in the state.\<close>

record keycloak =
  authServerUrl :: string
  realm :: string

definition adminService :: "keycloak \<Rightarrow> service" where
  "adminService kc = new_service (authServerUrl kc) (realm kc)"

definition noise :: "keycloak \<Rightarrow> string list" where
  "noise kc = [''offline_access'', ''uma_authorization'', ''default-roles-'' @ realm kc]"

text \<open>The callback of \<^verbatim>\<open>data.map\<close> in \<^verbatim>\<open>loadUsers\<close>: its \<^verbatim>\<open>try\<close> covers the whole
  body, so it always resolves.\<close>

definition enrich :: "env \<Rightarrow> keycloak \<Rightarrow> user \<Rightarrow> world \<Rightarrow> enriched_user \<times> world" where
  "enrich ev kc u w =
     (case getUserRealmRoles ev (adminService kc) (uid u) w of
        (Inr userRoles, w') \<Rightarrow>
          let meaningfulRoles = filter (\<lambda>n. n \<notin> set (noise kc)) (map name userRoles)
          in (\<lparr>uid = uid u, username = username u, email = email u, enabled = enabled u,
               realmRoles = meaningfulRoles\<rparr>, w')
      | (Inl e, w') \<Rightarrow>
          (\<lparr>uid = uid u, username = username u, email = email u, enabled = enabled u,
            realmRoles = []\<rparr>,
           w'\<lparr>warnings := warnings w' @ [(''Failed to fetch roles for user '' @ username u, e)]\<rparr>))"

fun enrich_all :: "env \<Rightarrow> keycloak \<Rightarrow> user list \<Rightarrow> world \<Rightarrow> enriched_user list \<times> world" where
  "enrich_all ev kc [] w = ([], w)"
| "enrich_all ev kc (u # us) w =
     (case enrich ev kc u w of (e, w') \<Rightarrow>
        (case enrich_all ev kc us w' of (es, w'') \<Rightarrow> (e # es, w'')))"

definition loadUsers :: "env \<Rightarrow> keycloak \<Rightarrow> nat \<Rightarrow> nat \<Rightarrow> unit async" where
  "loadUsers ev kc page pageSize w =
     (let first = page * pageSize in
      case getUsers ev (adminService kc) first pageSize w of (data_r, w1) \<Rightarrow>
      case getUsersCount ev (adminService kc) w1 of (count_r, w2) \<Rightarrow>
      case data_r of
        Inl e \<Rightarrow> (Inl e, w2)
      | Inr data \<Rightarrow>
         (case count_r of
            Inl e \<Rightarrow> (Inl e, w2)
          | Inr count \<Rightarrow>
              let w3 = w2\<lparr>totalUsers := count\<rparr> in
              (case data of
                 None \<Rightarrow> (Inl (TypeError ''Cannot read properties of null (reading 'map')''), w3)
               | Some us \<Rightarrow>
                   (case enrich_all ev kc us w3 of (enrichedUsers, w4) \<Rightarrow>
                      (Inr (), w4\<lparr>users := enrichedUsers\<rparr>)))))"

text \<open>
  \<open>selected\<close> is \<^verbatim>\<open>Object.keys(formData.selectedRoles).filter(r => formData.selectedRoles[r])\<close>,
  which both flows below compute. In \<^verbatim>\<open>performUpdate\<close>, \<^verbatim>\<open>editingUser\<close> is a user
  that \<^verbatim>\<open>loadUsers\<close> stored or \<^verbatim>\<open>null\<close>; its \<^verbatim>\<open>realmRoles\<close> is an array, so
  that \<^verbatim>\<open>editingUser.realmRoles || []\<close> is that array.
\<close>

definition selected :: "formData \<Rightarrow> string list" where
  "selected fd =
     filter (\<lambda>r. map_of (selectedRoles fd) r = Some True) (map fst (selectedRoles fd))"

definition performCreate :: "env \<Rightarrow> keycloak \<Rightarrow> formData \<Rightarrow> role list \<Rightarrow> unit async" where
  "performCreate ev kc fd availableRoles =
     (let newUserData = NewUserData (fd_username fd) (fd_email fd) True True in
      await (createUser ev (adminService kc) newUserData) (\<lambda>_.
      await (getUsers ev (adminService kc) 0 10) (\<lambda>usersList.
        case usersList of
          None \<Rightarrow> throw (TypeError ''Cannot read properties of null (reading 'find')'')
        | Some ul \<Rightarrow>
           (case find (\<lambda>u. username u = fd_username fd) ul of
              None \<Rightarrow> throw CreatedNotFound
            | Some createdUser \<Rightarrow>
                await (if fd_password fd \<noteq> []
                       then resetPassword ev (adminService kc) (uid createdUser) (fd_password fd)
                       else resolve None) (\<lambda>_.
                let rolesToAdd = selected fd in
                await (if length rolesToAdd > 0
                       then addRealmRoleMappings ev (adminService kc) (uid createdUser)
                              (filter (\<lambda>r. name r \<in> set rolesToAdd) availableRoles)
                       else resolve None) (\<lambda>_.
                alert (''User '' @ fd_username fd @ '' created successfully!'')))))))"

definition performUpdate ::
  "env \<Rightarrow> keycloak \<Rightarrow> enriched_user option \<Rightarrow> formData \<Rightarrow> role list \<Rightarrow> unit async" where
  "performUpdate ev kc editingUser fd availableRoles =
     (case editingUser of
        None \<Rightarrow> resolve ()
      | Some eu \<Rightarrow>
          await (if fd_password fd \<noteq> []
                 then resetPassword ev (adminService kc) (uid eu) (fd_password fd)
                 else resolve None) (\<lambda>_.
          let currentRoleNames = realmRoles eu;
              newSelectedParams = selected fd;
              toAddNames = filter (\<lambda>r. r \<notin> set currentRoleNames) newSelectedParams;
              toRemoveNames = filter (\<lambda>r. r \<notin> set newSelectedParams) currentRoleNames
          in
          await (if length toAddNames > 0
                 then addRealmRoleMappings ev (adminService kc) (uid eu)
                        (filter (\<lambda>r. name r \<in> set toAddNames) availableRoles)
                 else resolve None) (\<lambda>_.
          await (if length toRemoveNames > 0
                 then (let rolesToRemove = filter (\<lambda>r. name r \<in> set toRemoveNames) availableRoles
                       in if length rolesToRemove > 0
                          then removeRealmRoleMappings ev (adminService kc) (uid eu) rolesToRemove
                          else resolve None)
                 else resolve None) (\<lambda>_.
          alert (''User '' @ fd_username fd @ '' updated!'')))))"

subsection \<open>AuditLog\<close>

fun starts_with :: "string \<Rightarrow> string \<Rightarrow> bool" where
  "starts_with s [] = True"
| "starts_with [] (c # cs) = False"
| "starts_with (d # ds) (c # cs) = (d = c \<and> starts_with ds cs)"

fun str_includes :: "string \<Rightarrow> string \<Rightarrow> bool" where
  "str_includes [] sub = (sub = [])"
| "str_includes (d # ds) sub = (starts_with (d # ds) sub \<or> str_includes ds sub)"

definition default_types :: "string list" where
  "default_types = [''LOGIN'', ''LOGOUT'', ''LOGIN_ERROR'']"

text \<open>
  \<^verbatim>\<open>loadEvents\<close>, as the state it leaves; no caller looks at its promise. In the
  \<^verbatim>\<open>catch\<close>, reading \<^verbatim>\<open>err.message\<close> of a reason that is \<^verbatim>\<open>undefined\<close> or
  \<^verbatim>\<open>null\<close> throws: \<^verbatim>\<open>setError\<close> is not reached then, and \<^verbatim>\<open>finally\<close> runs all the same.
\<close>

definition loadEvents :: "env \<Rightarrow> keycloak \<Rightarrow> nat \<Rightarrow> nat \<Rightarrow> world \<Rightarrow> world" where
  "loadEvents ev kc page pageSize w =
     (let w0 = w\<lparr>al_loading := True, al_error := None\<rparr>;
          first = page * pageSize
      in case getEvents ev (adminService kc) first pageSize default_types w0 of
           (Inr data, w1) \<Rightarrow>
             w1\<lparr>events := (case data of None \<Rightarrow> [] | Some evs \<Rightarrow> evs), al_loading := False\<rparr>
         | (Inl err, w1) \<Rightarrow>
             if \<not> readable err
             then w1\<lparr>logged := logged w1 @ [err], al_loading := False\<rparr>
             else
               w1\<lparr>logged := logged w1 @ [err],
                  al_error :=
                    Some (case message err of
                            None \<Rightarrow> Text None
                          | Some m \<Rightarrow>
                              if m \<noteq> [] \<and> (str_includes m ''403'' \<or> str_includes m ''Access Denied'')
                              then AccessDeniedNotice else Text (Some m)),
                  al_loading := False\<rparr>)"

text \<open>The \<^verbatim>\<open>disabled\<close> attribute of the Next button.\<close>

definition next_disabled :: "world \<Rightarrow> nat \<Rightarrow> bool" where
  "next_disabled w pageSize = (length (events w) < pageSize)"

subsection \<open>What a run shows\<close>

text \<open>The calls a run has appended to the trace, and of these the HTTP calls, each as its
  method, URL and body.\<close>

definition issued :: "world \<Rightarrow> world \<Rightarrow> event list" where
  "issued w w' = drop (length (trace w)) (trace w')"

type_synonym call = "string option \<times> string \<times> body option"

fun calls :: "event list \<Rightarrow> call list" where
  "calls [] = []"
| "calls (UpdateToken m # es) = calls es"
| "calls (Fetch url cfg # es) = (method cfg, url, body cfg) # calls es"



definition reset_call :: "keycloak \<Rightarrow> string \<Rightarrow> string \<Rightarrow> call" where
  "reset_call kc u pw =
     (Some ''PUT'', baseUrl (adminService kc) @ ''/users/'' @ u @ ''/reset-password'',
      Some (PasswordPayload ''password'' pw False))"

definition grant_call :: "keycloak \<Rightarrow> string \<Rightarrow> role list \<Rightarrow> call" where
  "grant_call kc u rs =
     (Some ''POST'', baseUrl (adminService kc) @ ''/users/'' @ u @ ''/role-mappings/realm'',
      Some (RolesArray rs))"

definition revoke_call :: "keycloak \<Rightarrow> string \<Rightarrow> role list \<Rightarrow> call" where
  "revoke_call kc u rs =
     (Some ''DELETE'', baseUrl (adminService kc) @ ''/users/'' @ u @ ''/role-mappings/realm'',
      Some (RolesArray rs))"

fun is_grant :: "keycloak \<Rightarrow> string \<Rightarrow> call \<Rightarrow> bool" where
  "is_grant kc u (m, url, b) =
     (m = Some ''POST'' \<and> url = baseUrl (adminService kc) @ ''/users/'' @ u @ ''/role-mappings/realm'')"

fun is_revoke :: "keycloak \<Rightarrow> string \<Rightarrow> call \<Rightarrow> bool" where
  "is_revoke kc u (m, url, b) =
     (m = Some ''DELETE'' \<and> url = baseUrl (adminService kc) @ ''/users/'' @ u @ ''/role-mappings/realm'')"

fun payload :: "call \<Rightarrow> role list" where
  "payload (m, url, Some (RolesArray rs)) = rs"
| "payload (m, url, b) = []"

text \<open>The names \<^verbatim>\<open>performUpdate\<close> computes, and the HTTP calls it goes through when
  none of them fails.\<close>

definition toAdd :: "enriched_user \<Rightarrow> formData \<Rightarrow> string list" where
  "toAdd eu fd = filter (\<lambda>r. r \<notin> set (realmRoles eu)) (selected fd)"

definition toRemove :: "enriched_user \<Rightarrow> formData \<Rightarrow> string list" where
  "toRemove eu fd = filter (\<lambda>r. r \<notin> set (selected fd)) (realmRoles eu)"

definition resolved :: "role list \<Rightarrow> string list \<Rightarrow> role list" where
  "resolved availableRoles names = filter (\<lambda>r. name r \<in> set names) availableRoles"

definition update_plan :: "keycloak \<Rightarrow> enriched_user \<Rightarrow> formData \<Rightarrow> role list \<Rightarrow> call list" where
  "update_plan kc eu fd avail =
     (if fd_password fd \<noteq> [] then [reset_call kc (uid eu) (fd_password fd)] else [])
     @ ((if toAdd eu fd \<noteq> [] then [grant_call kc (uid eu) (resolved avail (toAdd eu fd))] else [])
     @ ((if toRemove eu fd \<noteq> [] \<and> resolved avail (toRemove eu fd) \<noteq> []
         then [revoke_call kc (uid eu) (resolved avail (toRemove eu fd))] else [])
     @ []))"


text \<open>\<open>follows p plan\<close>: from any state, \<open>p\<close> only appends to the trace, the HTTP calls it
  appends are an initial part of \<open>plan\<close>, and all of \<open>plan\<close> when \<open>p\<close> resolves.
  \<open>raises p Q\<close>: every error \<open>p\<close> rejects with satisfies \<open>Q\<close>.\<close>

definition follows :: "'a async \<Rightarrow> call list \<Rightarrow> bool" where
  "follows p plan \<longleftrightarrow>
     (\<forall>w. trace (snd (p w)) = trace w @ issued w (snd (p w))
        \<and> prefix (calls (issued w (snd (p w)))) plan
        \<and> ((\<exists>x. fst (p w) = Inr x) \<longrightarrow> calls (issued w (snd (p w))) = plan))"

definition raises :: "'a async \<Rightarrow> (error \<Rightarrow> bool) \<Rightarrow> bool" where
  "raises p Q \<longleftrightarrow> (\<forall>w e. fst (p w) = Inl e \<longrightarrow> Q e)"

text \<open>The errors \<^verbatim>\<open>_request\<close> can reject with.\<close>

fun request_error :: "error \<Rightarrow> bool" where
  "request_error CreatedNotFound = False"
| "request_error (TypeError m) = False"
| "request_error _ = True"

text \<open>The state in which the callback of item \<open>i\<close> of the page starts.\<close>

definition item_state :: "env \<Rightarrow> keycloak \<Rightarrow> user list \<Rightarrow> world \<Rightarrow> nat \<Rightarrow> world" where
  "item_state ev kc us w i = snd (enrich_all ev kc (take i us) w)"

subsection \<open>The error taxonomy of the specification\<close>

text \<open>The specification (4.2) names the failures of a request by status: Forbidden for 403,
  Conflict for 409, NotFound for 404, ApiError(status, body) for any other status outside
  200-299. \<open>spec_failure\<close> is that table; \<open>surfaced_as\<close> reads an error of the code in
  these terms.\<close>

datatype failure = SForbidden | SConflict | SNotFound | SApiError nat string

definition spec_failure :: "nat \<Rightarrow> string \<Rightarrow> failure" where
  "spec_failure st txt =
     (if st = 403 then SForbidden else if st = 409 then SConflict
      else if st = 404 then SNotFound else SApiError st txt)"

fun surfaced_as :: "error \<Rightarrow> failure option" where
  "surfaced_as AccessDenied = Some SForbidden"
| "surfaced_as Conflict = Some SConflict"
| "surfaced_as (ApiError st txt) = Some (SApiError st txt)"
| "surfaced_as _ = None"

subsection \<open>The lifetime of the credential\<close>

text \<open>
  Of a credential the code holds the token only. The specification (3) gives it an absolute
  expiry instant as well; \<open>expiresAt\<close> is the instant at which a token expires and
  \<open>instant\<close> the instant at which the last of a sequence of calls has settled.
  \<^verbatim>\<open>_request\<close> awaits nothing between the refresh and the call of \<^verbatim>\<open>fetch\<close>, so a
  request that follows the calls \<open>t\<close> is sent at \<open>instant lc t\<close>. \<open>lifetime\<close> is what
  a credential has left then; no token has nothing left.
\<close>

record lifecycle =
  expiresAt :: "string \<Rightarrow> int"
  instant :: "event list \<Rightarrow> int"

definition lifetime :: "lifecycle \<Rightarrow> event list \<Rightarrow> string option \<Rightarrow> int" where
  "lifetime lc t tok = (case tok of None \<Rightarrow> 0 | Some s \<Rightarrow> expiresAt lc s - instant lc t)"

text \<open>
  Modelled from the spec: the credential refresh, \<^verbatim>\<open>updateToken\<close> of keycloak-js, is
  called by \<^verbatim>\<open>_request\<close> and is not among the sources. Section 4.1 of the specification
  gives its contract: \<^verbatim>\<open>ensureFresh(marginSeconds)\<close> returns a valid, non-expiring-soon
  credential or fails; every caller receives a credential with expiry > now + margin.
  \<open>ensureFresh lc ev margin\<close> says that \<open>updateToken ev\<close> keeps this contract for
  \<open>margin\<close>: whenever it resolves, the object holds a token, and that token expires more
  than \<open>margin\<close> seconds after the instant at which it resolved.
\<close>

definition ensureFresh :: "lifecycle \<Rightarrow> env \<Rightarrow> nat \<Rightarrow> bool" where
  "ensureFresh lc ev margin \<longleftrightarrow>
     (\<forall>t tok tok'. updateToken ev t margin tok = (Resolves (), tok') \<longrightarrow>
        truthy tok' \<and> int margin < lifetime lc (t @ [UpdateToken margin]) tok')"

subsection \<open>A concrete realm\<close>

text \<open>Every token expires an hour after the start; a call takes a second, for ten minutes.\<close>

definition demo_lifecycle :: lifecycle where
  "demo_lifecycle = \<lparr>expiresAt = (\<lambda>s. 3600), instant = (\<lambda>t. int (min (length t) 600))\<rparr>"

definition demo_kc :: keycloak where
  "demo_kc = \<lparr>authServerUrl = ''http://127.0.0.1:8080/'', realm = ''my-react-app''\<rparr>"

definition demo_world :: world where
  "demo_world = \<lparr>token = Some ''t0'', trace = [], warnings = [], logged = [], alerts = [],
     users = [], totalUsers = 0, events = [], al_error = None, al_loading = False\<rparr>"

definition reply :: "nat \<Rightarrow> string \<Rightarrow> 'a option \<Rightarrow> 'a response" where
  "reply st txt j = \<lparr>status = st, content_length = None, text_body = txt, json = j\<rparr>"

definition alice :: user where
  "alice = \<lparr>uid = ''u1'', username = ''alice'', email = Some ''alice@example.org'', enabled = True\<rparr>"

definition bob :: user where
  "bob = \<lparr>uid = ''u2'', username = ''bob'', email = None, enabled = True\<rparr>"

definition carol :: user where
  "carol = \<lparr>uid = ''u3'', username = ''carol'', email = None, enabled = False\<rparr>"

definition admin_role :: role where
  "admin_role = \<lparr>rid = ''r2'', name = ''admin''\<rparr>"

definition doctor_role :: role where
  "doctor_role = \<lparr>rid = ''r1'', name = ''doctor''\<rparr>"

definition offline_role :: role where
  "offline_role = \<lparr>rid = ''r9'', name = ''offline_access''\<rparr>"

definition login_event :: audit_event where
  "login_event = \<lparr>time = 1700000000, evType = ''LOGIN'', userId = Some ''u1'',
     ipAddress = ''10.0.0.7'', clientId = ''react-app''\<rparr>"

definition logout_event :: audit_event where
  "logout_event = \<lparr>time = 1700000600, evType = ''LOGOUT'', userId = Some ''u1'',
     ipAddress = ''10.0.0.7'', clientId = ''react-app''\<rparr>"

text \<open>A server with three users. The role mappings of \<open>bob\<close> answer 500, the path
  \<^verbatim>\<open>/users/ghost\<close> answers 404, every other write answers 204.\<close>

definition demo_env :: env where
  "demo_env = \<lparr>
     updateToken = (\<lambda>t m tok. (Resolves (), Some ''t1'')),
     fetchUsers = (\<lambda>t url cfg. Resolves (reply 200 ''[...]'' (Some [alice, bob, carol]))),
     fetchCount = (\<lambda>t url cfg. Resolves (reply 200 ''3'' (Some 3))),
     fetchRoles = (\<lambda>t url cfg.
        if url = ''http://127.0.0.1:8080/admin/realms/my-react-app/users/u2/role-mappings/realm''
        then Resolves (reply 500 ''boom'' None)
        else Resolves (reply 200 ''[...]'' (Some [doctor_role, offline_role]))),
     fetchEvents = (\<lambda>t url cfg. Resolves (reply 200 ''[...]'' (Some [login_event, logout_event]))),
     fetchAck = (\<lambda>t url cfg.
        if url = ''http://127.0.0.1:8080/admin/realms/my-react-app/users/ghost''
        then Resolves (reply 404 ''Not Found'' None)
        else Resolves \<lparr>status = 204, content_length = None, text_body = [], json = None\<rparr>),
     encodeParam = (\<lambda>s. s)\<rparr>"

text \<open>The same server behind a proxy that answers the count with a page of HTML.\<close>

definition garbled_env :: env where
  "garbled_env = demo_env\<lparr>fetchCount := (\<lambda>t url cfg. Resolves (reply 200 ''<html>'' None))\<rparr>"

definition demo_avail :: "role list" where
  "demo_avail = [admin_role, doctor_role]"

definition bob_enriched :: "string list \<Rightarrow> enriched_user" where
  "bob_enriched rs =
     \<lparr>uid = ''u2'', username = ''bob'', email = None, enabled = True, realmRoles = rs\<rparr>"

definition demo_form :: "string \<Rightarrow> (string \<times> bool) list \<Rightarrow> formData" where
  "demo_form pw sel =
     \<lparr>fd_username = ''bob'', fd_email = ''bob@example.org'', fd_password = pw, selectedRoles = sel\<rparr>"

definition demo_w1 :: world where
  "demo_w1 = snd (getUsers demo_env (adminService demo_kc) 0 5 demo_world)"

definition demo_w2 :: world where
  "demo_w2 = snd (getUsersCount demo_env (adminService demo_kc) demo_w1)"



section \<open>The request\<close>

lemmas demo_defs = send_def request_def receive_def demo_env_def garbled_env_def demo_world_def
  demo_kc_def adminService_def new_service_def strip_trailing_slash_def truthy_def no_options_def
  spread_def interpolate_def Let_def reply_def issued_def ok_def

lemma map_of_assign: "map_of (assign obj (k, v)) = (map_of obj)(k \<mapsto> v)"
  by (induction obj) (auto simp: fun_eq_iff)

lemma map_of_spread_other:
  "k \<notin> fst ` set extra \<Longrightarrow> map_of (spread obj extra) k = map_of obj k"
  unfolding spread_def
proof (induction extra arbitrary: obj)
  case Nil
  then show ?case by simp
next
  case (Cons kv extra)
  obtain k' v' where kv: "kv = (k', v')" by (cases kv)
  with Cons show ?case by (simp add: map_of_assign)
qed

lemma send_cases:
  fixes fetch :: "env \<Rightarrow> event list \<Rightarrow> string \<Rightarrow> options \<Rightarrow> 'a response settled"
  shows "(\<not> truthy (token w) \<and> send ev fetch svc ep opts w = (Inl NoActiveToken, w))
   \<or> (truthy (token w) \<and> (\<exists>m. fst (updateToken ev (trace w) 30 (token w)) = Rejects m
         \<and> fst (send ev fetch svc ep opts w) = Inl (Rejection m))
       \<and> issued w (snd (send ev fetch svc ep opts w)) = [UpdateToken 30])
   \<or> (truthy (token w) \<and> fst (updateToken ev (trace w) 30 (token w)) = Resolves ()
       \<and> token (snd (send ev fetch svc ep opts w)) = snd (updateToken ev (trace w) 30 (token w))
       \<and> (\<exists>cfg. issued w (snd (send ev fetch svc ep opts w))
                    = [UpdateToken 30, Fetch (baseUrl svc @ ep) cfg]
             \<and> method cfg = method opts \<and> body cfg = body opts
             \<and> (''Authorization'' \<notin> fst ` set (headers opts) \<longrightarrow>
                 map_of (headers cfg) ''Authorization''
                   = Some (''Bearer '' @ interpolate (snd (updateToken ev (trace w) 30 (token w)))))))"
  by (auto simp: send_def issued_def Let_def map_of_spread_other split: prod.splits settled.splits)

lemma send_extends:
  "trace (snd (send ev fetch svc ep opts w)) = trace w @ issued w (snd (send ev fetch svc ep opts w))"
  by (auto simp: send_def issued_def Let_def split: prod.splits settled.splits)

lemma request_world: "snd (request ev fetch svc ep opts w) = snd (send ev fetch svc ep opts w)"
  by (cases "send ev fetch svc ep opts w") (auto simp: request_def split: sum.splits)

lemma request_received:
  "fst (send ev fetch svc ep opts w) = Inr r \<Longrightarrow>
     fst (request ev fetch svc ep opts w) = receive r"
  by (cases "send ev fetch svc ep opts w") (auto simp: request_def split: sum.splits)

lemma demo_send_roles:
  "fst (send demo_env fetchRoles (adminService demo_kc) ''/users/u2/role-mappings/realm''
          no_options demo_world) = Inr (reply 500 ''boom'' None)"
  by (simp add: demo_defs)

lemma demo_send_ack:
  "fst (send demo_env fetchAck (adminService demo_kc) ''/users/u2/reset-password''
          no_options demo_world)
     = Inr \<lparr>status = 204, content_length = None, text_body = [], json = None\<rparr>"
  by (simp add: demo_defs)

lemma demo_send_count:
  "fst (send demo_env fetchCount (adminService demo_kc) ''/users/count'' no_options demo_world)
     = Inr (reply 200 ''3'' (Some 3))"
  by (simp add: demo_defs)

lemma garbled_send_count:
  "fst (send garbled_env fetchCount (adminService demo_kc) ''/users/count'' no_options demo_world)
     = Inr (reply 200 ''<html>'' None)"
  by (simp add: demo_defs)

text \<open>
  C2, amended. When \<^verbatim>\<open>fetch\<close> has delivered a response whose status is outside 200-299,
  \<^verbatim>\<open>_request\<close> rejects: with the access-denied error for 403, with the conflict error for
  409, and for every other status, 404 included, with the generic API error that carries the
  status and the text of the body. Apart from 404 this is the table of the specification.
  A 403 is therefore never anything but the access-denied error.
\<close>

theorem request_classifies:
  assumes "fst (send ev fetch svc ep opts w) = Inr r" and "\<not> ok r"
  shows "fst (request ev fetch svc ep opts w)
           = Inl (if status r = 403 then AccessDenied
                  else if status r = 409 then Conflict
                  else ApiError (status r) (text_body r))
         \<and> (status r \<noteq> 404 \<longrightarrow>
              (\<exists>e. fst (request ev fetch svc ep opts w) = Inl e
                 \<and> surfaced_as e = Some (spec_failure (status r) (text_body r))))"
  using assms by (simp add: request_received receive_def spec_failure_def)

theorem request_classifies_witness:
  "fst (send demo_env fetchRoles (adminService demo_kc) ''/users/u2/role-mappings/realm''
          no_options demo_world) = Inr (reply 500 ''boom'' None)
   \<and> \<not> ok (reply 500 ''boom'' (None :: role list option))
   \<and> fst (request demo_env fetchRoles (adminService demo_kc) ''/users/u2/role-mappings/realm''
            no_options demo_world) = Inl (ApiError 500 ''boom'')"
proof -
  have nok: "\<not> ok (reply 500 ''boom'' (None :: role list option))"
    by (simp add: reply_def ok_def)
  from request_classifies [OF demo_send_roles nok]
  have "fst (request demo_env fetchRoles (adminService demo_kc) ''/users/u2/role-mappings/realm''
               no_options demo_world) = Inl (ApiError 500 ''boom'')"
    by (simp add: reply_def)
  with demo_send_roles nok show ?thesis by simp
qed

text \<open>
  C2 as it was stated fails at 404: the response to \<^verbatim>\<open>/users/ghost\<close> is surfaced as the
  generic API error with status 404, where the table of the specification has NotFound.
\<close>

theorem request_not_found_counterexample:
  "fst (request demo_env fetchAck (adminService demo_kc) ''/users/ghost'' no_options demo_world)
     = Inl (ApiError 404 ''Not Found'')
   \<and> surfaced_as (ApiError 404 ''Not Found'') = Some (SApiError 404 ''Not Found'')
   \<and> spec_failure 404 ''Not Found'' = SNotFound"
  by (simp add: demo_defs spec_failure_def)

lemma demo_ensureFresh: "ensureFresh demo_lifecycle demo_env 30"
  by (simp add: ensureFresh_def demo_lifecycle_def demo_env_def lifetime_def truthy_def min_def)

text \<open>
  C4, amended. In a run of \<^verbatim>\<open>_request\<close> that starts with no token, the refresh is not
  invoked and nothing is sent: the run rejects with "No active token". In a run that starts
  with a token, the calls appended are \<^verbatim>\<open>updateToken(30)\<close> alone, which then has
  rejected, or \<^verbatim>\<open>updateToken(30)\<close> followed by the one \<^verbatim>\<open>fetch\<close>: the HTTP call is made
  only once the refresh has resolved, immediately after it, and its bearer token is the
  token the \<^verbatim>\<open>keycloak\<close> object holds then. When the refresh keeps the contract of
  section 4.1 for the margin 30, that token is a valid one and has more than 30 seconds left
  at the instant the request is sent.
\<close>

theorem request_refreshes_before_fetch:
  fixes fetch :: "env \<Rightarrow> event list \<Rightarrow> string \<Rightarrow> options \<Rightarrow> 'a response settled"
  shows "trace (snd (request ev fetch svc ep opts w))
           = trace w @ issued w (snd (request ev fetch svc ep opts w))
       \<and> (\<not> truthy (token w) \<longrightarrow>
            fst (request ev fetch svc ep opts w) = Inl NoActiveToken
            \<and> issued w (snd (request ev fetch svc ep opts w)) = [])
       \<and> (truthy (token w) \<longrightarrow>
            (issued w (snd (request ev fetch svc ep opts w)) = [UpdateToken 30]
               \<and> (\<exists>m. fst (updateToken ev (trace w) 30 (token w)) = Rejects m))
          \<or> (\<exists>cfg. issued w (snd (request ev fetch svc ep opts w))
                      = [UpdateToken 30, Fetch (baseUrl svc @ ep) cfg]
                \<and> fst (updateToken ev (trace w) 30 (token w)) = Resolves ()
                \<and> (''Authorization'' \<notin> fst ` set (headers opts) \<longrightarrow>
                     map_of (headers cfg) ''Authorization''
                       = Some (''Bearer '' @ interpolate (snd (updateToken ev (trace w) 30 (token w)))))
                \<and> (ensureFresh lc ev 30 \<longrightarrow>
                     truthy (snd (updateToken ev (trace w) 30 (token w)))
                     \<and> 30 < lifetime lc (trace w @ [UpdateToken 30])
                               (snd (updateToken ev (trace w) 30 (token w))))))"
proof -
  let ?w' = "snd (request ev fetch svc ep opts w)"
  let ?u = "updateToken ev (trace w) 30 (token w)"
  have ext: "trace ?w' = trace w @ issued w ?w'"
    using send_extends [of ev fetch svc ep opts w] by (simp only: request_world)
  have none: "fst (request ev fetch svc ep opts w) = Inl NoActiveToken \<and> issued w ?w' = []"
    if "\<not> truthy (token w)"
    using that by (simp add: request_def send_def issued_def)
  have fresh: "truthy (snd ?u) \<and> 30 < lifetime lc (trace w @ [UpdateToken 30]) (snd ?u)"
    if "fst ?u = Resolves ()" and "ensureFresh lc ev 30"
  proof -
    from that(1) have "?u = (Resolves (), snd ?u)" by (metis prod.collapse)
    with that(2) show ?thesis unfolding ensureFresh_def by fastforce
  qed
  have some: "(issued w ?w' = [UpdateToken 30] \<and> (\<exists>m. fst ?u = Rejects m))
      \<or> (\<exists>cfg. issued w ?w' = [UpdateToken 30, Fetch (baseUrl svc @ ep) cfg]
            \<and> fst ?u = Resolves ()
            \<and> (''Authorization'' \<notin> fst ` set (headers opts) \<longrightarrow>
                 map_of (headers cfg) ''Authorization'' = Some (''Bearer '' @ interpolate (snd ?u)))
            \<and> (ensureFresh lc ev 30 \<longrightarrow>
                 truthy (snd ?u) \<and> 30 < lifetime lc (trace w @ [UpdateToken 30]) (snd ?u)))"
    if "truthy (token w)"
    using send_cases [of w ev fetch svc ep opts] that fresh
    unfolding request_world by blast
  from ext none some show ?thesis by blast
qed

theorem request_refreshes_before_fetch_witness:
  "truthy (token demo_world)
   \<and> ensureFresh demo_lifecycle demo_env 30
   \<and> issued demo_world
       (snd (request demo_env fetchCount (adminService demo_kc) ''/users/count'' no_options demo_world))
       = [UpdateToken 30,
          Fetch ''http://127.0.0.1:8080/admin/realms/my-react-app/users/count''
            \<lparr>method = None,
             headers = [(''Authorization'', ''Bearer t1''), (''Content-Type'', ''application/json'')],
             body = None\<rparr>]
   \<and> ''Authorization'' \<notin> fst ` set (headers no_options)
   \<and> fst (updateToken demo_env (trace demo_world) 30 (token demo_world)) = Resolves ()
   \<and> snd (updateToken demo_env (trace demo_world) 30 (token demo_world)) = Some ''t1''
   \<and> 30 < lifetime demo_lifecycle (trace demo_world @ [UpdateToken 30]) (Some ''t1'')"
proof -
  have tok: "truthy (token demo_world)"
    by (simp add: demo_world_def truthy_def)
  have sent: "issued demo_world
       (snd (request demo_env fetchCount (adminService demo_kc) ''/users/count'' no_options demo_world))
       = [UpdateToken 30,
          Fetch ''http://127.0.0.1:8080/admin/realms/my-react-app/users/count''
            \<lparr>method = None,
             headers = [(''Authorization'', ''Bearer t1''), (''Content-Type'', ''application/json'')],
             body = None\<rparr>]"
    by (simp add: demo_defs)
  have upd: "updateToken demo_env (trace demo_world) 30 (token demo_world) = (Resolves (), Some ''t1'')"
    by (simp add: demo_env_def)
  have hdr: "''Authorization'' \<notin> fst ` set (headers no_options)"
    by (simp add: no_options_def)
  from request_refreshes_before_fetch
         [of demo_env fetchCount "adminService demo_kc" "''/users/count''" no_options demo_world
             demo_lifecycle]
       tok demo_ensureFresh sent upd
  have "30 < lifetime demo_lifecycle (trace demo_world @ [UpdateToken 30]) (Some ''t1'')"
    by simp
  with tok demo_ensureFresh sent hdr upd show ?thesis by simp
qed

text \<open>
  C4 as it was stated fails in a run that starts with no token: \<^verbatim>\<open>_request\<close> rejects with
  "No active token" and has invoked neither the refresh nor \<^verbatim>\<open>fetch\<close>.
\<close>

theorem request_without_token_counterexample:
  "token (demo_world\<lparr>token := None\<rparr>) = None
   \<and> fst (request demo_env fetchCount (adminService demo_kc) ''/users/count'' no_options
            (demo_world\<lparr>token := None\<rparr>)) = Inl NoActiveToken
   \<and> issued (demo_world\<lparr>token := None\<rparr>)
       (snd (request demo_env fetchCount (adminService demo_kc) ''/users/count'' no_options
               (demo_world\<lparr>token := None\<rparr>))) = []"
  by (simp add: demo_defs)

text \<open>
  C7. When \<^verbatim>\<open>fetch\<close> has delivered a response with a status in 200-299:
  if the status is 204 or the \<^verbatim>\<open>content-length\<close> header is \<^verbatim>\<open>0\<close>, \<^verbatim>\<open>_request\<close>
  resolves with \<^verbatim>\<open>null\<close>, and does so whatever parsing the body would give; a body of
  length zero that comes without the header is not JSON and gives \<^verbatim>\<open>null\<close> as well;
  otherwise a body that parses is returned as parsed.
\<close>

theorem request_null_without_parsing:
  assumes "fst (send ev fetch svc ep opts w) = Inr r" and "ok r"
  shows "(status r = 204 \<or> content_length r = Some ''0'' \<longrightarrow>
            fst (request ev fetch svc ep opts w) = Inr None
            \<and> (\<forall>j. receive (r\<lparr>json := j\<rparr>) = Inr None))
       \<and> (text_body r = [] \<and> json r = None \<longrightarrow> fst (request ev fetch svc ep opts w) = Inr None)
       \<and> (status r \<noteq> 204 \<and> content_length r \<noteq> Some ''0'' \<longrightarrow>
            (\<forall>v. json r = Some v \<longrightarrow> fst (request ev fetch svc ep opts w) = Inr (Some v)))"
  using assms by (auto simp: request_received receive_def ok_def split: option.splits)

theorem request_null_without_parsing_witness:
  "fst (send demo_env fetchAck (adminService demo_kc) ''/users/u2/reset-password''
          no_options demo_world)
     = Inr \<lparr>status = 204, content_length = None, text_body = [], json = None\<rparr>
   \<and> ok \<lparr>status = 204, content_length = None, text_body = [], json = (None :: unit option)\<rparr>
   \<and> fst (request demo_env fetchAck (adminService demo_kc) ''/users/u2/reset-password''
            no_options demo_world) = Inr None
   \<and> fst (send demo_env fetchCount (adminService demo_kc) ''/users/count'' no_options demo_world)
       = Inr (reply 200 ''3'' (Some 3))
   \<and> ok (reply 200 ''3'' (Some (3 :: nat)))
   \<and> fst (request demo_env fetchCount (adminService demo_kc) ''/users/count'' no_options demo_world)
       = Inr (Some 3)"
proof -
  have ok1: "ok \<lparr>status = 204, content_length = None, text_body = [], json = (None :: unit option)\<rparr>"
    by (simp add: ok_def)
  have ok2: "ok (reply 200 ''3'' (Some (3 :: nat)))"
    by (simp add: ok_def reply_def)
  from request_null_without_parsing [OF demo_send_ack ok1]
  have r1: "fst (request demo_env fetchAck (adminService demo_kc) ''/users/u2/reset-password''
                   no_options demo_world) = Inr None"
    by simp
  from request_null_without_parsing [OF demo_send_count ok2]
  have r2: "fst (request demo_env fetchCount (adminService demo_kc) ''/users/count''
                   no_options demo_world) = Inr (Some 3)"
    by (simp add: reply_def)
  from demo_send_ack ok1 r1 demo_send_count ok2 r2 show ?thesis by simp
qed

text \<open>
  C10. When \<^verbatim>\<open>fetch\<close> has delivered a response with a status in 200-299 whose body is
  not JSON, \<^verbatim>\<open>_request\<close> resolves with \<^verbatim>\<open>null\<close>; and on any response with a status
  in 200-299 it resolves, so that a caller never sees a parse failure.
\<close>

theorem request_swallows_parse_failure:
  assumes "fst (send ev fetch svc ep opts w) = Inr r" and "ok r"
  shows "(status r \<noteq> 204 \<and> content_length r \<noteq> Some ''0'' \<and> json r = None \<longrightarrow>
            fst (request ev fetch svc ep opts w) = Inr None)
       \<and> (\<exists>v. fst (request ev fetch svc ep opts w) = Inr v)"
  using assms by (auto simp: request_received receive_def split: option.splits)

theorem request_swallows_parse_failure_witness:
  "fst (send garbled_env fetchCount (adminService demo_kc) ''/users/count'' no_options demo_world)
     = Inr (reply 200 ''<html>'' None)
   \<and> ok (reply 200 ''<html>'' (None :: nat option))
   \<and> status (reply 200 ''<html>'' (None :: nat option)) \<noteq> 204
   \<and> content_length (reply 200 ''<html>'' (None :: nat option)) \<noteq> Some ''0''
   \<and> json (reply 200 ''<html>'' (None :: nat option)) = None
   \<and> fst (request garbled_env fetchCount (adminService demo_kc) ''/users/count''
            no_options demo_world) = Inr None"
proof -
  have ok1: "ok (reply 200 ''<html>'' (None :: nat option))"
    by (simp add: ok_def reply_def)
  have shape: "status (reply 200 ''<html>'' (None :: nat option)) \<noteq> 204
      \<and> content_length (reply 200 ''<html>'' (None :: nat option)) \<noteq> Some ''0''
      \<and> json (reply 200 ''<html>'' (None :: nat option)) = None"
    by (simp add: reply_def)
  from request_swallows_parse_failure [OF garbled_send_count ok1] shape
  have "fst (request garbled_env fetchCount (adminService demo_kc) ''/users/count''
               no_options demo_world) = Inr None"
    by blast
  with garbled_send_count ok1 shape show ?thesis by simp
qed

section \<open>The audit log\<close>

lemma demo_events:
  "getEvents demo_env (adminService demo_kc) (0 * 2) 2 default_types
     (demo_world\<lparr>al_loading := True, al_error := None\<rparr>)
   = (Inr (Some [login_event, logout_event]),
      snd (getEvents demo_env (adminService demo_kc) (0 * 2) 2 default_types
             (demo_world\<lparr>al_loading := True, al_error := None\<rparr>)))"
  by (simp add: getEvents_def demo_defs)

lemma demo_events_ten:
  "getEvents demo_env (adminService demo_kc) (0 * 10) 10 default_types
     (demo_world\<lparr>al_loading := True, al_error := None\<rparr>)
   = (Inr (Some [login_event, logout_event]),
      snd (getEvents demo_env (adminService demo_kc) (0 * 10) 10 default_types
             (demo_world\<lparr>al_loading := True, al_error := None\<rparr>)))"
  by (simp add: getEvents_def demo_defs)

text \<open>
  C8. After \<^verbatim>\<open>loadEvents\<close> has fetched a page with page size \<open>pageSize\<close>, the events
  shown are the page returned (none for \<^verbatim>\<open>null\<close>), and the Next button is enabled exactly
  when that page has at least \<open>pageSize\<close> items: for a page of at most \<open>pageSize\<close> items,
  which is what the \<^verbatim>\<open>max\<close> parameter asks of the server, exactly when it has
  \<open>pageSize\<close> items; with fewer items it is disabled.
\<close>

theorem next_enabled_iff_full_page:
  assumes "getEvents ev (adminService kc) (page * pageSize) pageSize default_types
             (w\<lparr>al_loading := True, al_error := None\<rparr>) = (Inr data, w1)"
  shows "events (loadEvents ev kc page pageSize w) = (case data of None \<Rightarrow> [] | Some evs \<Rightarrow> evs)
       \<and> (\<not> next_disabled (loadEvents ev kc page pageSize w) pageSize
            \<longleftrightarrow> pageSize \<le> length (events (loadEvents ev kc page pageSize w)))
       \<and> (length (events (loadEvents ev kc page pageSize w)) \<le> pageSize \<longrightarrow>
            (\<not> next_disabled (loadEvents ev kc page pageSize w) pageSize
               \<longleftrightarrow> length (events (loadEvents ev kc page pageSize w)) = pageSize))
       \<and> (length (events (loadEvents ev kc page pageSize w)) < pageSize \<longrightarrow>
            next_disabled (loadEvents ev kc page pageSize w) pageSize)"
  using assms by (auto simp: loadEvents_def next_disabled_def Let_def)

theorem next_enabled_iff_full_page_witness:
  "events (loadEvents demo_env demo_kc 0 2 demo_world) = [login_event, logout_event]
   \<and> length (events (loadEvents demo_env demo_kc 0 2 demo_world)) \<le> 2
   \<and> \<not> next_disabled (loadEvents demo_env demo_kc 0 2 demo_world) 2
   \<and> events (loadEvents demo_env demo_kc 0 10 demo_world) = [login_event, logout_event]
   \<and> length (events (loadEvents demo_env demo_kc 0 10 demo_world)) < 10
   \<and> next_disabled (loadEvents demo_env demo_kc 0 10 demo_world) 10"
  using next_enabled_iff_full_page [OF demo_events] next_enabled_iff_full_page [OF demo_events_ten]
  by simp

section \<open>The HTTP calls of a flow\<close>

lemma calls_append: "calls (xs @ ys) = calls xs @ calls ys"
  by (induction xs rule: calls.induct) auto

lemma issued_self [simp]: "issued w w = []"
  by (simp add: issued_def)

lemma issued_append: "trace w' = trace w @ evs \<Longrightarrow> issued w w' = evs"
  by (simp add: issued_def)

lemma issued_chain:
  assumes "trace w1 = trace w @ issued w w1" and "trace w2 = trace w1 @ issued w1 w2"
  shows "trace w2 = trace w @ issued w w2" and "issued w w2 = issued w w1 @ issued w1 w2"
proof -
  have all: "trace w2 = trace w @ (issued w w1 @ issued w1 w2)"
    using assms by (metis append_assoc)
  from issued_append [OF all] show "issued w w2 = issued w w1 @ issued w1 w2" .
  with all show "trace w2 = trace w @ issued w w2" by simp
qed

lemma follows_request:
  "follows (request ev fetch svc ep opts) [(method opts, baseUrl svc @ ep, body opts)]"
  unfolding follows_def
proof (intro allI)
  fix w
  show "trace (snd (request ev fetch svc ep opts w)) = trace w @ issued w (snd (request ev fetch svc ep opts w))
      \<and> prefix (calls (issued w (snd (request ev fetch svc ep opts w)))) [(method opts, baseUrl svc @ ep, body opts)]
      \<and> ((\<exists>x. fst (request ev fetch svc ep opts w) = Inr x) \<longrightarrow>
           calls (issued w (snd (request ev fetch svc ep opts w))) = [(method opts, baseUrl svc @ ep, body opts)])"
    by (auto simp: request_def send_def issued_def Let_def receive_def
        split: prod.splits settled.splits sum.splits option.splits if_splits)
qed

lemma follows_resolve: "follows (resolve x) []"
  by (simp add: follows_def resolve_def)

lemma follows_throw: "follows (throw e) plan"
  by (simp add: follows_def throw_def)

lemma follows_alert: "follows (alert m) []"
  by (simp add: follows_def alert_def issued_def)

lemma follows_await:
  assumes p: "follows p xs" and k: "\<And>x. follows (k x) ys"
  shows "follows (await p k) (xs @ ys)"
  unfolding follows_def
proof (intro allI)
  fix w
  obtain r w1 where pw: "p w = (r, w1)" by (cases "p w")
  from p have t1: "trace w1 = trace w @ issued w w1"
    and p1: "prefix (calls (issued w w1)) xs"
    and e1: "(\<exists>x. r = Inr x) \<longrightarrow> calls (issued w w1) = xs"
    using pw unfolding follows_def by (metis fst_conv snd_conv)+
  show "trace (snd (await p k w)) = trace w @ issued w (snd (await p k w))
      \<and> prefix (calls (issued w (snd (await p k w)))) (xs @ ys)
      \<and> ((\<exists>x. fst (await p k w) = Inr x) \<longrightarrow> calls (issued w (snd (await p k w))) = xs @ ys)"
  proof (cases r)
    case (Inl e)
    then have "await p k w = (Inl e, w1)" by (simp add: await_def pw)
    with t1 p1 show ?thesis by (auto intro: prefix_order.trans)
  next
    case (Inr x)
    then have aw: "await p k w = k x w1" by (simp add: await_def pw)
    obtain r2 w2 where kw: "k x w1 = (r2, w2)" by (cases "k x w1")
    from k [of x] have t2: "trace w2 = trace w1 @ issued w1 w2"
      and p2: "prefix (calls (issued w1 w2)) ys"
      and e2: "(\<exists>y. r2 = Inr y) \<longrightarrow> calls (issued w1 w2) = ys"
      using kw unfolding follows_def by (metis fst_conv snd_conv)+
    from e1 Inr have c1: "calls (issued w w1) = xs" by simp
    have "issued w w2 = issued w w1 @ issued w1 w2" and "trace w2 = trace w @ issued w w2"
      using issued_chain [OF t1 t2] by simp_all
    with c1 p2 e2 show ?thesis by (simp add: aw kw calls_append)
  qed
qed

lemma raises_request: "raises (request ev fetch svc ep opts) request_error"
  by (auto simp: raises_def request_def send_def receive_def Let_def
      split: prod.splits settled.splits sum.splits option.splits if_splits)

lemma raises_resolve: "raises (resolve x) Q"
  by (simp add: raises_def resolve_def)

lemma raises_alert: "raises (alert m) Q"
  by (simp add: raises_def alert_def)

lemma raises_await:
  assumes "raises p Q" and "\<And>x. raises (k x) Q"
  shows "raises (await p k) Q"
  using assms unfolding raises_def await_def
  by (auto split: prod.splits sum.splits) (metis fst_conv)+

lemma follows_resetPassword: "follows (resetPassword ev (adminService kc) u pw) [reset_call kc u pw]"
  using follows_request [of ev fetchAck "adminService kc" "''/users/'' @ u @ ''/reset-password''"
      "\<lparr>method = Some ''PUT'', headers = [], body = Some (PasswordPayload ''password'' pw False)\<rparr>"]
  by (simp add: resetPassword_def reset_call_def)

lemma follows_addRealmRoleMappings:
  "follows (addRealmRoleMappings ev (adminService kc) u rs) [grant_call kc u rs]"
  using follows_request [of ev fetchAck "adminService kc" "''/users/'' @ u @ ''/role-mappings/realm''"
      "\<lparr>method = Some ''POST'', headers = [], body = Some (RolesArray rs)\<rparr>"]
  by (simp add: addRealmRoleMappings_def grant_call_def)

lemma follows_removeRealmRoleMappings:
  "follows (removeRealmRoleMappings ev (adminService kc) u rs) [revoke_call kc u rs]"
  using follows_request [of ev fetchAck "adminService kc" "''/users/'' @ u @ ''/role-mappings/realm''"
      "\<lparr>method = Some ''DELETE'', headers = [], body = Some (RolesArray rs)\<rparr>"]
  by (simp add: removeRealmRoleMappings_def revoke_call_def)

lemma follows_performUpdate:
  "follows (performUpdate ev kc (Some eu) fd avail) (update_plan kc eu fd avail)"
  unfolding performUpdate_def update_plan_def option.case Let_def
  apply (rule follows_await)
   apply (simp add: follows_resetPassword follows_resolve)
  apply (rule follows_await)
   apply (simp add: follows_addRealmRoleMappings follows_resolve toAdd_def resolved_def)
  apply (rule follows_await)
   apply (simp add: follows_removeRealmRoleMappings follows_resolve toRemove_def resolved_def)
  apply (rule follows_alert)
  done

lemma raises_performUpdate:
  "raises (performUpdate ev kc eo fd avail) request_error"
  unfolding performUpdate_def Let_def
  by (cases eo)
     (auto intro!: raises_await raises_resolve raises_alert raises_request
        simp: resetPassword_def addRealmRoleMappings_def removeRealmRoleMappings_def)

lemma follows_at:
  assumes "follows p plan"
  shows "trace (snd (p w)) = trace w @ issued w (snd (p w))"
    and "prefix (calls (issued w (snd (p w)))) plan"
    and "fst (p w) = Inr x \<Longrightarrow> calls (issued w (snd (p w))) = plan"
  using assms unfolding follows_def by blast+

lemma set_toAdd: "set (toAdd eu fd) = set (selected fd) - set (realmRoles eu)"
  by (auto simp: toAdd_def)

lemma set_toRemove: "set (toRemove eu fd) = set (realmRoles eu) - set (selected fd)"
  by (auto simp: toRemove_def)

lemma resolved_empty_iff: "resolved avail names = [] \<longleftrightarrow> (\<forall>r\<in>set avail. name r \<notin> set names)"
  by (auto simp: resolved_def filter_empty_conv)

lemma toAdd_empty_iff: "toAdd eu fd \<noteq> [] \<longleftrightarrow> set (selected fd) - set (realmRoles eu) \<noteq> {}"
  by (metis set_toAdd set_empty)

lemma resolved_toRemove_iff:
  "toRemove eu fd \<noteq> [] \<and> resolved avail (toRemove eu fd) \<noteq> []
     \<longleftrightarrow> (\<exists>r\<in>set avail. name r \<in> set (realmRoles eu) - set (selected fd))"
proof
  assume "toRemove eu fd \<noteq> [] \<and> resolved avail (toRemove eu fd) \<noteq> []"
  then have "\<not> (\<forall>r\<in>set avail. name r \<notin> set (toRemove eu fd))"
    using resolved_empty_iff [of avail "toRemove eu fd"] by blast
  then show "\<exists>r\<in>set avail. name r \<in> set (realmRoles eu) - set (selected fd)"
    using set_toRemove [of eu fd] by blast
next
  assume "\<exists>r\<in>set avail. name r \<in> set (realmRoles eu) - set (selected fd)"
  then obtain r where r: "r \<in> set avail" "name r \<in> set (toRemove eu fd)"
    using set_toRemove [of eu fd] by blast
  then have "toRemove eu fd \<noteq> []" by auto
  moreover from r have "resolved avail (toRemove eu fd) \<noteq> []"
    using resolved_empty_iff [of avail "toRemove eu fd"] by blast
  ultimately show "toRemove eu fd \<noteq> [] \<and> resolved avail (toRemove eu fd) \<noteq> []" ..
qed

lemma is_grant_simps:
  "\<not> is_grant kc u (reset_call kc u' pw)"
  "is_grant kc u (grant_call kc u rs)"
  "\<not> is_grant kc u (revoke_call kc u' rs)"
  by (simp_all add: reset_call_def grant_call_def revoke_call_def)

lemma is_revoke_simps:
  "\<not> is_revoke kc u (reset_call kc u' pw)"
  "\<not> is_revoke kc u (grant_call kc u' rs)"
  "is_revoke kc u (revoke_call kc u rs)"
  by (simp_all add: reset_call_def grant_call_def revoke_call_def)

lemma grant_in_plan:
  "(\<exists>c\<in>set (update_plan kc eu fd avail). is_grant kc (uid eu) c)
     \<longleftrightarrow> set (selected fd) - set (realmRoles eu) \<noteq> {}"
proof -
  have "(\<exists>c\<in>set (update_plan kc eu fd avail). is_grant kc (uid eu) c) \<longleftrightarrow> toAdd eu fd \<noteq> []"
    by (auto simp: update_plan_def is_grant_simps)
  then show ?thesis using toAdd_empty_iff [of eu fd] by blast
qed

lemma revoke_in_plan:
  "(\<exists>c\<in>set (update_plan kc eu fd avail). is_revoke kc (uid eu) c)
     \<longleftrightarrow> (\<exists>r\<in>set avail. name r \<in> set (realmRoles eu) - set (selected fd))"
proof -
  have "(\<exists>c\<in>set (update_plan kc eu fd avail). is_revoke kc (uid eu) c)
          \<longleftrightarrow> toRemove eu fd \<noteq> [] \<and> resolved avail (toRemove eu fd) \<noteq> []"
    by (auto simp: update_plan_def is_revoke_simps)
  then show ?thesis using resolved_toRemove_iff [of eu fd avail] by blast
qed

section \<open>Updating a user\<close>

lemmas run_defs = performUpdate_def performCreate_def loadUsers_def loadEvents_def enrich_def
  getUsers_def getUsersCount_def getEvents_def createUser_def resetPassword_def
  getUserRealmRoles_def addRealmRoleMappings_def removeRealmRoleMappings_def
  await_def resolve_def throw_def alert_def selected_def noise_def default_types_def
  show_nat.simps digit_def bob_enriched_def demo_form_def demo_avail_def
  alice_def bob_def carol_def admin_role_def doctor_role_def offline_role_def

text \<open>
  C1, amended. Let \<open>D\<close> be the names selected in the form and \<open>C\<close> the names the edited
  user has. In any run of \<^verbatim>\<open>performUpdate\<close>, a grant call is made only if \<open>D - C\<close> is
  not empty and a revoke call only if some name of \<open>C - D\<close> has a record in the catalog.
  When the run resolves, a grant call was made exactly when \<open>D - C\<close> is not empty, and a
  revoke call exactly when some name of \<open>C - D\<close> has a record in the catalog. With
  \<open>D = C\<close> neither is made.
\<close>

theorem performUpdate_reconciles:
  "((\<exists>c\<in>set (calls (issued w (snd (performUpdate ev kc (Some eu) fd avail w)))).
        is_grant kc (uid eu) c)
      \<longrightarrow> set (selected fd) - set (realmRoles eu) \<noteq> {})
   \<and> ((\<exists>c\<in>set (calls (issued w (snd (performUpdate ev kc (Some eu) fd avail w)))).
        is_revoke kc (uid eu) c)
      \<longrightarrow> (\<exists>r\<in>set avail. name r \<in> set (realmRoles eu) - set (selected fd)))
   \<and> (fst (performUpdate ev kc (Some eu) fd avail w) = Inr () \<longrightarrow>
        ((\<exists>c\<in>set (calls (issued w (snd (performUpdate ev kc (Some eu) fd avail w)))).
            is_grant kc (uid eu) c)
          \<longleftrightarrow> set (selected fd) - set (realmRoles eu) \<noteq> {})
      \<and> ((\<exists>c\<in>set (calls (issued w (snd (performUpdate ev kc (Some eu) fd avail w)))).
            is_revoke kc (uid eu) c)
          \<longleftrightarrow> (\<exists>r\<in>set avail. name r \<in> set (realmRoles eu) - set (selected fd))))
   \<and> (set (selected fd) = set (realmRoles eu) \<longrightarrow>
        (\<forall>c\<in>set (calls (issued w (snd (performUpdate ev kc (Some eu) fd avail w)))).
            \<not> is_grant kc (uid eu) c \<and> \<not> is_revoke kc (uid eu) c))"
proof -
  let ?cs = "calls (issued w (snd (performUpdate ev kc (Some eu) fd avail w)))"
  let ?plan = "update_plan kc eu fd avail"
  note f = follows_at [OF follows_performUpdate [of ev kc eu fd avail], of w]
  have sub: "set ?cs \<subseteq> set ?plan"
    using f(2) by (rule set_mono_prefix)
  have fin: "?cs = ?plan" if "fst (performUpdate ev kc (Some eu) fd avail w) = Inr ()"
    using f(3) that by simp
  have g: "set (selected fd) - set (realmRoles eu) \<noteq> {}"
    if "\<exists>c\<in>set ?cs. is_grant kc (uid eu) c"
  proof -
    from that sub have "\<exists>c\<in>set ?plan. is_grant kc (uid eu) c" by blast
    then show ?thesis using grant_in_plan [of kc eu fd avail] by blast
  qed
  have r: "\<exists>r\<in>set avail. name r \<in> set (realmRoles eu) - set (selected fd)"
    if "\<exists>c\<in>set ?cs. is_revoke kc (uid eu) c"
  proof -
    from that sub have "\<exists>c\<in>set ?plan. is_revoke kc (uid eu) c" by blast
    then show ?thesis using revoke_in_plan [of kc eu fd avail] by blast
  qed
  have same: "\<forall>c\<in>set ?cs. \<not> is_grant kc (uid eu) c \<and> \<not> is_revoke kc (uid eu) c"
    if eq: "set (selected fd) = set (realmRoles eu)"
  proof (intro ballI conjI notI)
    fix c assume c: "c \<in> set ?cs"
    { assume "is_grant kc (uid eu) c"
      with c have "\<exists>c\<in>set ?cs. is_grant kc (uid eu) c" by blast
      from g [OF this] show False by (simp add: eq) }
    { assume "is_revoke kc (uid eu) c"
      with c have "\<exists>c\<in>set ?cs. is_revoke kc (uid eu) c" by blast
      from r [OF this] show False by (simp add: eq) }
  qed
  have fg: "(\<exists>c\<in>set ?cs. is_grant kc (uid eu) c)
              \<longleftrightarrow> set (selected fd) - set (realmRoles eu) \<noteq> {}"
    and fr: "(\<exists>c\<in>set ?cs. is_revoke kc (uid eu) c)
              \<longleftrightarrow> (\<exists>r\<in>set avail. name r \<in> set (realmRoles eu) - set (selected fd))"
    if "fst (performUpdate ev kc (Some eu) fd avail w) = Inr ()"
    using fin [OF that] grant_in_plan [of kc eu fd avail] revoke_in_plan [of kc eu fd avail]
    by simp_all
  from g r same fg fr show ?thesis by blast
qed

theorem performUpdate_reconciles_witness:
  "fst (performUpdate demo_env demo_kc (Some (bob_enriched [''doctor'']))
          (demo_form [] [(''doctor'', False), (''admin'', True)]) demo_avail demo_world) = Inr ()
   \<and> set (selected (demo_form [] [(''doctor'', False), (''admin'', True)]))
        - set (realmRoles (bob_enriched [''doctor''])) = {''admin''}
   \<and> set (realmRoles (bob_enriched [''doctor'']))
        - set (selected (demo_form [] [(''doctor'', False), (''admin'', True)])) = {''doctor''}
   \<and> calls (issued demo_world
        (snd (performUpdate demo_env demo_kc (Some (bob_enriched [''doctor'']))
                (demo_form [] [(''doctor'', False), (''admin'', True)]) demo_avail demo_world)))
       = [grant_call demo_kc ''u2'' [admin_role], revoke_call demo_kc ''u2'' [doctor_role]]
   \<and> set (selected (demo_form [] [(''doctor'', True)])) = set (realmRoles (bob_enriched [''doctor'']))
   \<and> calls (issued demo_world
        (snd (performUpdate demo_env demo_kc (Some (bob_enriched [''doctor'']))
                (demo_form [] [(''doctor'', True)]) demo_avail demo_world))) = []"
  using performUpdate_reconciles [of demo_world demo_env demo_kc "bob_enriched [''doctor'']"
          "demo_form [] [(''doctor'', False), (''admin'', True)]" demo_avail]
        performUpdate_reconciles [of demo_world demo_env demo_kc "bob_enriched [''doctor'']"
          "demo_form [] [(''doctor'', True)]" demo_avail]
  by (simp add: run_defs demo_defs grant_call_def revoke_call_def)

text \<open>
  C1 as it was stated fails where a name of \<open>C - D\<close> has no record in the catalog: the
  user has \<^verbatim>\<open>auditor\<close>, the form selects nothing, the catalog holds \<^verbatim>\<open>admin\<close> and
  \<^verbatim>\<open>doctor\<close>. The run resolves and has made no call at all.
\<close>

theorem performUpdate_revoke_counterexample:
  "set (realmRoles (bob_enriched [''auditor''])) - set (selected (demo_form [] [])) = {''auditor''}
   \<and> fst (performUpdate demo_env demo_kc (Some (bob_enriched [''auditor''])) (demo_form [] [])
            demo_avail demo_world) = Inr ()
   \<and> calls (issued demo_world
        (snd (performUpdate demo_env demo_kc (Some (bob_enriched [''auditor''])) (demo_form [] [])
                demo_avail demo_world))) = []"
  by (simp add: run_defs demo_defs)

lemma resolved_toAdd:
  "resolved avail (toAdd eu fd)
     = filter (\<lambda>r. name r \<in> set (selected fd) - set (realmRoles eu)) avail"
  by (simp only: resolved_def set_toAdd)

lemma resolved_toRemove:
  "resolved avail (toRemove eu fd)
     = filter (\<lambda>r. name r \<in> set (realmRoles eu) - set (selected fd)) avail"
  by (simp only: resolved_def set_toRemove)

lemma plan_grant_payload:
  assumes "c \<in> set (update_plan kc eu fd avail)" and "is_grant kc (uid eu) c"
  shows "c = grant_call kc (uid eu) (resolved avail (toAdd eu fd))"
  using assms by (auto simp: update_plan_def is_grant_simps split: if_splits)

lemma plan_revoke_payload:
  assumes "c \<in> set (update_plan kc eu fd avail)" and "is_revoke kc (uid eu) c"
  shows "c = revoke_call kc (uid eu) (resolved avail (toRemove eu fd))"
  using assms by (auto simp: update_plan_def is_revoke_simps split: if_splits)

lemma plan_payload_known:
  assumes "c \<in> set (update_plan kc eu fd avail)"
  shows "name ` set (payload c) \<subseteq> name ` set avail"
  using assms
  by (auto simp: update_plan_def reset_call_def grant_call_def revoke_call_def resolved_def
      split: if_splits)

text \<open>
  C6. In any run of \<^verbatim>\<open>performUpdate\<close>, the grant call, if made, carries exactly the
  records of the catalog whose names are in \<open>D - C\<close>, and the revoke call exactly those
  whose names are in \<open>C - D\<close>: a name without a record in the catalog is in no payload.
  The run rejects only with an error of one of its requests, never because a name is unknown.
\<close>

theorem performUpdate_drops_unknown_names:
  "(\<forall>c\<in>set (calls (issued w (snd (performUpdate ev kc (Some eu) fd avail w)))).
      (is_grant kc (uid eu) c \<longrightarrow>
         c = grant_call kc (uid eu)
               (filter (\<lambda>r. name r \<in> set (selected fd) - set (realmRoles eu)) avail))
    \<and> (is_revoke kc (uid eu) c \<longrightarrow>
         c = revoke_call kc (uid eu)
               (filter (\<lambda>r. name r \<in> set (realmRoles eu) - set (selected fd)) avail))
    \<and> (\<forall>n. n \<notin> name ` set avail \<longrightarrow> n \<notin> name ` set (payload c)))
   \<and> (\<forall>e. fst (performUpdate ev kc (Some eu) fd avail w) = Inl e \<longrightarrow> request_error e)"
proof -
  let ?cs = "calls (issued w (snd (performUpdate ev kc (Some eu) fd avail w)))"
  have sub: "set ?cs \<subseteq> set (update_plan kc eu fd avail)"
    using follows_at(2) [OF follows_performUpdate] by (rule set_mono_prefix)
  have "request_error e" if "fst (performUpdate ev kc (Some eu) fd avail w) = Inl e" for e
    using raises_performUpdate [of ev kc "Some eu" fd avail] that unfolding raises_def by blast
  moreover have "c = grant_call kc (uid eu)
        (filter (\<lambda>r. name r \<in> set (selected fd) - set (realmRoles eu)) avail)"
    if "c \<in> set ?cs" "is_grant kc (uid eu) c" for c
    using plan_grant_payload [of c kc eu fd avail] that sub
    by (simp only: resolved_toAdd) blast
  moreover have "c = revoke_call kc (uid eu)
        (filter (\<lambda>r. name r \<in> set (realmRoles eu) - set (selected fd)) avail)"
    if "c \<in> set ?cs" "is_revoke kc (uid eu) c" for c
    using plan_revoke_payload [of c kc eu fd avail] that sub
    by (simp only: resolved_toRemove) blast
  moreover have "n \<notin> name ` set (payload c)"
    if "c \<in> set ?cs" "n \<notin> name ` set avail" for c n
    using plan_payload_known [of c kc eu fd avail] that sub by blast
  ultimately show ?thesis by blast
qed

theorem performUpdate_drops_unknown_names_witness:
  "''nurse'' \<notin> name ` set demo_avail \<and> ''auditor'' \<notin> name ` set demo_avail
   \<and> fst (performUpdate demo_env demo_kc (Some (bob_enriched [''doctor'', ''auditor'']))
            (demo_form [] [(''admin'', True), (''nurse'', True)]) demo_avail demo_world) = Inr ()
   \<and> calls (issued demo_world
        (snd (performUpdate demo_env demo_kc (Some (bob_enriched [''doctor'', ''auditor'']))
                (demo_form [] [(''admin'', True), (''nurse'', True)]) demo_avail demo_world)))
       = [grant_call demo_kc ''u2'' [admin_role], revoke_call demo_kc ''u2'' [doctor_role]]
   \<and> is_grant demo_kc ''u2'' (grant_call demo_kc ''u2'' [admin_role])
   \<and> ''nurse'' \<notin> name ` set (payload (grant_call demo_kc ''u2'' [admin_role]))
   \<and> is_revoke demo_kc ''u2'' (revoke_call demo_kc ''u2'' [doctor_role])
   \<and> ''auditor'' \<notin> name ` set (payload (revoke_call demo_kc ''u2'' [doctor_role]))"
  using performUpdate_drops_unknown_names [of demo_world demo_env demo_kc
          "bob_enriched [''doctor'', ''auditor'']"
          "demo_form [] [(''admin'', True), (''nurse'', True)]" demo_avail]
  by (simp add: run_defs demo_defs grant_call_def revoke_call_def)

section \<open>Creating a user\<close>








section \<open>Loading a page of users\<close>

lemma enrich_all_Cons_fst:
  "fst (enrich_all ev kc (u # us) w)
     = fst (enrich ev kc u w) # fst (enrich_all ev kc us (snd (enrich ev kc u w)))"
  by (simp add: case_prod_unfold)

lemma enrich_all_Cons_snd:
  "snd (enrich_all ev kc (u # us) w) = snd (enrich_all ev kc us (snd (enrich ev kc u w)))"
  by (simp add: case_prod_unfold)

lemma enrich_all_length: "length (fst (enrich_all ev kc us w)) = length us"
  by (induction us arbitrary: w) (simp_all add: enrich_all_Cons_fst del: enrich_all.simps(2))

lemma enrich_all_append_fst:
  "fst (enrich_all ev kc (xs @ ys) w)
     = fst (enrich_all ev kc xs w) @ fst (enrich_all ev kc ys (snd (enrich_all ev kc xs w)))"
  by (induction xs arbitrary: w)
     (simp_all add: enrich_all_Cons_fst enrich_all_Cons_snd del: enrich_all.simps(2))

lemma enrich_all_append_snd:
  "snd (enrich_all ev kc (xs @ ys) w) = snd (enrich_all ev kc ys (snd (enrich_all ev kc xs w)))"
  by (induction xs arbitrary: w)
     (simp_all add: enrich_all_Cons_snd del: enrich_all.simps(2))

lemma enrich_all_nth:
  assumes "i < length us"
  shows "fst (enrich_all ev kc us w) ! i = fst (enrich ev kc (us ! i) (item_state ev kc us w i))"
proof -
  have us: "us = take i us @ (us ! i # drop (Suc i) us)"
    using assms by (simp add: id_take_nth_drop)
  have len: "length (fst (enrich_all ev kc (take i us) w)) = i"
    using assms by (simp add: enrich_all_length)
  have "fst (enrich_all ev kc (take i us @ (us ! i # drop (Suc i) us)) w) ! i
          = fst (enrich ev kc (us ! i) (item_state ev kc us w i))"
    using len
    by (simp add: enrich_all_append_fst enrich_all_Cons_fst item_state_def nth_append
        del: enrich_all.simps(2))
  with us show ?thesis by simp
qed

lemma request_warnings: "warnings (snd (request ev fetch svc ep opts w)) = warnings w"
  by (auto simp: request_def send_def Let_def split: prod.splits settled.splits sum.splits)

lemma getUserRealmRoles_warnings: "warnings (snd (getUserRealmRoles ev svc u w)) = warnings w"
proof -
  have "snd (getUserRealmRoles ev svc u w)
          = snd (request ev fetchRoles svc (''/users/'' @ u @ ''/role-mappings/realm'') no_options w)"
    by (cases "request ev fetchRoles svc (''/users/'' @ u @ ''/role-mappings/realm'') no_options w")
       (auto simp: getUserRealmRoles_def await_def resolve_def split: sum.splits)
  then show ?thesis by (simp only: request_warnings)
qed

lemma enrich_warnings:
  "warnings (snd (enrich ev kc u w)) =
     warnings w @ (case fst (getUserRealmRoles ev (adminService kc) (uid u) w) of
                     Inl e \<Rightarrow> [(''Failed to fetch roles for user '' @ username u, e)]
                   | Inr rs \<Rightarrow> [])"
  using getUserRealmRoles_warnings [of ev "adminService kc" "uid u" w]
  by (cases "getUserRealmRoles ev (adminService kc) (uid u) w")
     (auto simp: enrich_def Let_def split: sum.splits)

lemma enrich_all_warnings_mono:
  "set (warnings w) \<subseteq> set (warnings (snd (enrich_all ev kc us w)))"
proof (induction us arbitrary: w)
  case Nil then show ?case by simp
next
  case (Cons u us)
  have "set (warnings w) \<subseteq> set (warnings (snd (enrich ev kc u w)))"
    by (simp add: enrich_warnings)
  also have "\<dots> \<subseteq> set (warnings (snd (enrich_all ev kc us (snd (enrich ev kc u w)))))"
    by (rule Cons.IH)
  finally show ?case by (simp only: enrich_all_Cons_snd)
qed

lemma enrich_all_item_warning:
  assumes "i < length us"
  shows "set (warnings (snd (enrich ev kc (us ! i) (item_state ev kc us w i))))
           \<subseteq> set (warnings (snd (enrich_all ev kc us w)))"
proof -
  have us: "us = take i us @ (us ! i # drop (Suc i) us)"
    using assms by (simp add: id_take_nth_drop)
  have "snd (enrich_all ev kc (take i us @ (us ! i # drop (Suc i) us)) w)
          = snd (enrich_all ev kc (drop (Suc i) us) (snd (enrich ev kc (us ! i) (item_state ev kc us w i))))"
    by (simp add: enrich_all_append_snd enrich_all_Cons_snd item_state_def del: enrich_all.simps(2))
  with us have "snd (enrich_all ev kc us w)
          = snd (enrich_all ev kc (drop (Suc i) us) (snd (enrich ev kc (us ! i) (item_state ev kc us w i))))"
    by simp
  then show ?thesis using enrich_all_warnings_mono by simp
qed

lemma enrich_fst:
  "fst (enrich ev kc u w) =
     \<lparr>uid = uid u, username = username u, email = email u, enabled = enabled u,
      realmRoles = (case fst (getUserRealmRoles ev (adminService kc) (uid u) w) of
                      Inl e \<Rightarrow> []
                    | Inr userRoles \<Rightarrow> filter (\<lambda>n. n \<notin> set (noise kc)) (map name userRoles))\<rparr>"
  by (cases "getUserRealmRoles ev (adminService kc) (uid u) w")
     (auto simp: enrich_def Let_def split: sum.splits)

lemma enrich_truncate: "user.truncate (fst (enrich ev kc u w)) = u"
  by (simp add: enrich_fst user.truncate_def)

lemma enrich_all_truncate: "map user.truncate (fst (enrich_all ev kc us w)) = us"
  by (induction us arbitrary: w)
     (simp_all add: enrich_all_Cons_fst enrich_truncate del: enrich_all.simps(2))

lemma loadUsers_resolved:
  assumes "getUsers ev (adminService kc) (page * pageSize) pageSize w = (Inr (Some data), w1)"
      and "getUsersCount ev (adminService kc) w1 = (Inr count, w2)"
  shows "loadUsers ev kc page pageSize w =
           (Inr (), (snd (enrich_all ev kc data (w2\<lparr>totalUsers := count\<rparr>)))
                       \<lparr>users := fst (enrich_all ev kc data (w2\<lparr>totalUsers := count\<rparr>))\<rparr>)"
  using assms by (simp add: loadUsers_def Let_def case_prod_unfold)

lemma demo_page:
  "getUsers demo_env (adminService demo_kc) (0 * 5) 5 demo_world
     = (Inr (Some [alice, bob, carol]), demo_w1)"
  by (simp add: demo_w1_def getUsers_def show_nat.simps digit_def demo_defs)

lemma demo_count:
  "getUsersCount demo_env (adminService demo_kc) demo_w1 = (Inr 3, demo_w2)"
  by (simp add: demo_w2_def demo_w1_def getUsersCount_def getUsers_def await_def resolve_def
      show_nat.simps digit_def demo_defs)

lemma demo_bob_fails:
  "fst (getUserRealmRoles demo_env (adminService demo_kc) (uid ([alice, bob, carol] ! 1))
          (item_state demo_env demo_kc [alice, bob, carol] (demo_w2\<lparr>totalUsers := 3\<rparr>) 1))
     = Inl (ApiError 500 ''boom'')"
  by (simp add: item_state_def demo_w2_def demo_w1_def run_defs demo_defs)

lemma demo_alice_roles:
  "fst (getUserRealmRoles demo_env (adminService demo_kc) (uid ([alice, bob, carol] ! 0))
          (item_state demo_env demo_kc [alice, bob, carol] (demo_w2\<lparr>totalUsers := 3\<rparr>) 0))
     = Inr [doctor_role, offline_role]"
  by (simp add: item_state_def demo_w2_def demo_w1_def run_defs demo_defs)

text \<open>
  C3. When the page of users and the count have been fetched, \<^verbatim>\<open>loadUsers\<close> resolves,
  whatever the fetches of the role mappings do. The users it stores are as many as the page
  has and, without their roles, they are the page in its order. Every item whose fetch of
  role mappings rejects is stored with no roles, and a warning with its username and the
  error is on the console.
\<close>

theorem loadUsers_tolerates_failed_subfetch:
  assumes "getUsers ev (adminService kc) (page * pageSize) pageSize w = (Inr (Some data), w1)"
      and "getUsersCount ev (adminService kc) w1 = (Inr count, w2)"
  shows "fst (loadUsers ev kc page pageSize w) = Inr ()
       \<and> length (users (snd (loadUsers ev kc page pageSize w))) = length data
       \<and> map user.truncate (users (snd (loadUsers ev kc page pageSize w))) = data
       \<and> (\<forall>i<length data. \<forall>e.
            fst (getUserRealmRoles ev (adminService kc) (uid (data ! i))
                   (item_state ev kc data (w2\<lparr>totalUsers := count\<rparr>) i)) = Inl e \<longrightarrow>
            realmRoles (users (snd (loadUsers ev kc page pageSize w)) ! i) = []
            \<and> (''Failed to fetch roles for user '' @ username (data ! i), e)
                \<in> set (warnings (snd (loadUsers ev kc page pageSize w))))"
proof -
  let ?w3 = "w2\<lparr>totalUsers := count\<rparr>"
  have run: "loadUsers ev kc page pageSize w =
      (Inr (), (snd (enrich_all ev kc data ?w3))\<lparr>users := fst (enrich_all ev kc data ?w3)\<rparr>)"
    by (rule loadUsers_resolved [OF assms])
  have failed: "realmRoles (fst (enrich_all ev kc data ?w3) ! i) = []
      \<and> (''Failed to fetch roles for user '' @ username (data ! i), e)
           \<in> set (warnings (snd (enrich_all ev kc data ?w3)))"
    if i: "i < length data"
      and e: "fst (getUserRealmRoles ev (adminService kc) (uid (data ! i)) (item_state ev kc data ?w3 i)) = Inl e"
    for i e
  proof
    show "realmRoles (fst (enrich_all ev kc data ?w3) ! i) = []"
      using e by (simp add: enrich_all_nth [OF i] enrich_fst)
    have "(''Failed to fetch roles for user '' @ username (data ! i), e)
            \<in> set (warnings (snd (enrich ev kc (data ! i) (item_state ev kc data ?w3 i))))"
      using e by (simp add: enrich_warnings)
    then show "(''Failed to fetch roles for user '' @ username (data ! i), e)
            \<in> set (warnings (snd (enrich_all ev kc data ?w3)))"
      using enrich_all_item_warning [OF i] by blast
  qed
  show ?thesis
    using failed by (simp add: run enrich_all_length enrich_all_truncate)
qed

theorem loadUsers_tolerates_failed_subfetch_witness:
  "getUsers demo_env (adminService demo_kc) (0 * 5) 5 demo_world
     = (Inr (Some [alice, bob, carol]), demo_w1)
   \<and> getUsersCount demo_env (adminService demo_kc) demo_w1 = (Inr 3, demo_w2)
   \<and> 1 < length [alice, bob, carol]
   \<and> fst (getUserRealmRoles demo_env (adminService demo_kc) (uid ([alice, bob, carol] ! 1))
            (item_state demo_env demo_kc [alice, bob, carol] (demo_w2\<lparr>totalUsers := 3\<rparr>) 1))
       = Inl (ApiError 500 ''boom'')
   \<and> fst (loadUsers demo_env demo_kc 0 5 demo_world) = Inr ()
   \<and> length (users (snd (loadUsers demo_env demo_kc 0 5 demo_world))) = 3
   \<and> map user.truncate (users (snd (loadUsers demo_env demo_kc 0 5 demo_world)))
       = [alice, bob, carol]
   \<and> realmRoles (users (snd (loadUsers demo_env demo_kc 0 5 demo_world)) ! 1) = []
   \<and> (''Failed to fetch roles for user bob'', ApiError 500 ''boom'')
       \<in> set (warnings (snd (loadUsers demo_env demo_kc 0 5 demo_world)))"
proof -
  have i: "1 < length [alice, bob, carol]" by simp
  have who: "username ([alice, bob, carol] ! 1) = ''bob''" by (simp add: bob_def)
  from loadUsers_tolerates_failed_subfetch [OF demo_page demo_count] i demo_bob_fails
  have "fst (loadUsers demo_env demo_kc 0 5 demo_world) = Inr ()
      \<and> length (users (snd (loadUsers demo_env demo_kc 0 5 demo_world))) = length [alice, bob, carol]
      \<and> map user.truncate (users (snd (loadUsers demo_env demo_kc 0 5 demo_world)))
          = [alice, bob, carol]
      \<and> realmRoles (users (snd (loadUsers demo_env demo_kc 0 5 demo_world)) ! 1) = []
      \<and> (''Failed to fetch roles for user '' @ username ([alice, bob, carol] ! 1),
           ApiError 500 ''boom'')
          \<in> set (warnings (snd (loadUsers demo_env demo_kc 0 5 demo_world)))"
    by blast
  with demo_page demo_count demo_bob_fails who show ?thesis by simp
qed

text \<open>
  C9. When the page of users and the count have been fetched, the roles stored with each
  item of the page are the names of its role mappings, in their order, without
  \<^verbatim>\<open>offline_access\<close>, \<^verbatim>\<open>uma_authorization\<close> and \<^verbatim>\<open>default-roles-\<close> followed by the
  realm, and with nothing else removed (no names at all when the fetch rejects). So none
  of the three names is among the roles of any user stored.
\<close>

theorem loadUsers_filters_noise:
  assumes "getUsers ev (adminService kc) (page * pageSize) pageSize w = (Inr (Some data), w1)"
      and "getUsersCount ev (adminService kc) w1 = (Inr count, w2)"
  shows "(\<forall>i<length data.
            realmRoles (users (snd (loadUsers ev kc page pageSize w)) ! i)
              = (case fst (getUserRealmRoles ev (adminService kc) (uid (data ! i))
                             (item_state ev kc data (w2\<lparr>totalUsers := count\<rparr>) i)) of
                   Inl e \<Rightarrow> []
                 | Inr userRoles \<Rightarrow>
                     filter (\<lambda>n. n \<notin> {''offline_access'', ''uma_authorization'',
                                       ''default-roles-'' @ realm kc})
                       (map name userRoles)))
       \<and> (\<forall>u \<in> set (users (snd (loadUsers ev kc page pageSize w))).
            set (realmRoles u) \<inter> {''offline_access'', ''uma_authorization'',
                                    ''default-roles-'' @ realm kc} = {})"
proof -
  let ?w3 = "w2\<lparr>totalUsers := count\<rparr>"
  let ?us = "users (snd (loadUsers ev kc page pageSize w))"
  have run: "?us = fst (enrich_all ev kc data ?w3)"
    by (simp add: loadUsers_resolved [OF assms])
  have item: "realmRoles (?us ! i)
      = (case fst (getUserRealmRoles ev (adminService kc) (uid (data ! i)) (item_state ev kc data ?w3 i)) of
           Inl e \<Rightarrow> []
         | Inr userRoles \<Rightarrow>
             filter (\<lambda>n. n \<notin> {''offline_access'', ''uma_authorization'', ''default-roles-'' @ realm kc})
               (map name userRoles))"
    if "i < length data" for i
    using that by (simp add: run enrich_all_nth enrich_fst noise_def cong: sum.case_cong)
  have len: "length ?us = length data"
    by (simp add: run enrich_all_length)
  have "set (realmRoles u) \<inter> {''offline_access'', ''uma_authorization'', ''default-roles-'' @ realm kc} = {}"
    if "u \<in> set ?us" for u
  proof -
    from that obtain i where i: "i < length data" and u: "u = ?us ! i"
      using len by (metis in_set_conv_nth)
    show ?thesis
      unfolding u item [OF i] by (auto split: sum.splits)
  qed
  with item show ?thesis by blast
qed

theorem loadUsers_filters_noise_witness:
  "getUsers demo_env (adminService demo_kc) (0 * 5) 5 demo_world
     = (Inr (Some [alice, bob, carol]), demo_w1)
   \<and> getUsersCount demo_env (adminService demo_kc) demo_w1 = (Inr 3, demo_w2)
   \<and> 0 < length [alice, bob, carol]
   \<and> fst (getUserRealmRoles demo_env (adminService demo_kc) (uid ([alice, bob, carol] ! 0))
            (item_state demo_env demo_kc [alice, bob, carol] (demo_w2\<lparr>totalUsers := 3\<rparr>) 0))
       = Inr [doctor_role, offline_role]
   \<and> map name [doctor_role, offline_role] = [''doctor'', ''offline_access'']
   \<and> realmRoles (users (snd (loadUsers demo_env demo_kc 0 5 demo_world)) ! 0) = [''doctor'']"
proof -
  have i: "0 < length [alice, bob, carol]" by simp
  have names: "map name [doctor_role, offline_role] = [''doctor'', ''offline_access'']"
    by (simp add: doctor_role_def offline_role_def)
  from loadUsers_filters_noise [OF demo_page demo_count] i
  have "realmRoles (users (snd (loadUsers demo_env demo_kc 0 5 demo_world)) ! 0)
          = (case fst (getUserRealmRoles demo_env (adminService demo_kc) (uid ([alice, bob, carol] ! 0))
                         (item_state demo_env demo_kc [alice, bob, carol]
                            (demo_w2\<lparr>totalUsers := 3\<rparr>) 0)) of
               Inl e \<Rightarrow> []
             | Inr userRoles \<Rightarrow>
                 filter (\<lambda>n. n \<notin> {''offline_access'', ''uma_authorization'',
                                   ''default-roles-'' @ realm demo_kc})
                   (map name userRoles))"
    by blast
  with demo_alice_roles names
  have "realmRoles (users (snd (loadUsers demo_env demo_kc 0 5 demo_world)) ! 0) = [''doctor'']"
    by simp
  with demo_page demo_count demo_alice_roles names show ?thesis by simp
qed

end
